theory Spec2Isabelle
  imports Complex_Main
begin

section \<open>JavaScript values\<close>

text \<open>
  The agents exchange plain JavaScript objects.  Where the TypeScript source gives a value
  an interface type it is a record here; where the source types it \<^verbatim>\<open>unknown\<close>
  (the \<^verbatim>\<open>data\<close> of an \<^verbatim>\<open>AgentOutput\<close>, the items of a data
  source) it is a value of \<open>json\<close>, an object being the list of its properties in the
  order the object literal writes them.  Numbers are exact rationals: every number the
  agents compute is a short decimal (0.65, 0.77, 0.89, 2.5, 2.7, 2.9, ...) that IEEE
  double arithmetic yields and prints as the same decimal.
\<close>

datatype json =
    JUndefined
  | JNull
  | JBool bool
  | JNum rat
  | JStr string
  | JArr "json list"
  | JObj "(string \<times> json) list"

text \<open>Property access \<^verbatim>\<open>o.k\<close> on an object; a missing property is \<^verbatim>\<open>undefined\<close>.\<close>

fun field :: "json \<Rightarrow> string \<Rightarrow> json" where
  "field (JObj kvs) k = (case map_of kvs k of None \<Rightarrow> JUndefined | Some v \<Rightarrow> v)"
| "field v k = JUndefined"

text \<open>\<^verbatim>\<open>k in o\<close>: the object has a property of that name.\<close>

fun has_field :: "json \<Rightarrow> string \<Rightarrow> bool" where
  "has_field (JObj kvs) k = (k \<in> set (map fst kvs))"
| "has_field v k = False"

text \<open>
  What a caller can pass as \<^verbatim>\<open>input\<close>: the TypeScript type asks for an object, and
  \<^verbatim>\<open>validateInput\<close> checks it at run time, so the other JavaScript values are
  kept (a number is never \<^verbatim>\<open>NaN\<close> here, which is falsy and not an object
  either).  \<open>'o\<close> is the record the agent casts the object to.
\<close>

datatype 'o AgentInput =
    InUndefined
  | InNull
  | InBoolean bool
  | InNumber rat
  | InString string
  | InBigInt int
  | InSymbol
  | InFunction
  | InObject 'o

fun truthy :: "'o AgentInput \<Rightarrow> bool" where
  "truthy InUndefined = False"
| "truthy InNull = False"
| "truthy (InBoolean b) = b"
| "truthy (InNumber n) = (n \<noteq> 0)"
| "truthy (InString s) = (s \<noteq> [])"
| "truthy (InBigInt n) = (n \<noteq> 0)"
| "truthy InSymbol = True"
| "truthy InFunction = True"
| "truthy (InObject obj) = True"

fun typeof :: "'o AgentInput \<Rightarrow> string" where
  "typeof InUndefined = ''undefined''"
| "typeof InNull = ''object''"
| "typeof (InBoolean b) = ''boolean''"
| "typeof (InNumber n) = ''number''"
| "typeof (InString s) = ''string''"
| "typeof (InBigInt n) = ''bigint''"
| "typeof InSymbol = ''symbol''"
| "typeof InFunction = ''function''"
| "typeof (InObject obj) = ''object''"

text \<open>
  Template literals print numbers in decimal.  \<open>show_nat\<close> and \<open>show_int\<close> print an
  integer; \<open>show_tenths t\<close> prints the number \<open>t / 10\<close> the way JavaScript prints a
  double with at most one decimal place (\<^verbatim>\<open>2.5\<close>, \<^verbatim>\<open>3\<close>).
\<close>

definition digit_char :: "nat \<Rightarrow> char" where
  "digit_char d = char_of (48 + d)"

fun show_nat :: "nat \<Rightarrow> string" where
  "show_nat n = (if n < 10 then [digit_char n] else show_nat (n div 10) @ [digit_char (n mod 10)])"

definition show_int :: "int \<Rightarrow> string" where
  "show_int i = (if i < 0 then ''-'' @ show_nat (nat (- i)) else show_nat (nat i))"

definition show_tenths :: "nat \<Rightarrow> string" where
  "show_tenths t =
     show_nat (t div 10) @ (if t mod 10 = 0 then [] else ''.'' @ [digit_char (t mod 10)])"

text \<open>\<^verbatim>\<open>`${x}`\<close> of an optional string: \<^verbatim>\<open>undefined\<close> prints as its name.\<close>

fun template_string :: "string option \<Rightarrow> string" where
  "template_string None = ''undefined''"
| "template_string (Some s) = s"

text \<open>
  \<^verbatim>\<open>String.prototype.trim\<close> on a string of one-byte characters: the white space
  and line terminators below U+0100 are removed at both ends.
\<close>

definition is_whitespace :: "char \<Rightarrow> bool" where
  "is_whitespace c = (of_char c \<in> {9, 10, 11, 12, 13, 32, 160 :: nat})"

definition trim :: "string \<Rightarrow> string" where
  "trim s = rev (dropWhile is_whitespace (rev (dropWhile is_whitespace s)))"

section \<open>Promises\<close>

text \<open>
  A promise is modelled by how it settles: after how many milliseconds, and with a value
  or with a rejection (the message that the \<^verbatim>\<open>catch\<close> blocks extract from the
  thrown value).
\<close>

datatype 'a settled = Resolved 'a | Rejected string

type_synonym 'a promise = "nat \<times> 'a settled"

fun resolved_values :: "'a promise list \<Rightarrow> 'a list" where
  "resolved_values [] = []"
| "resolved_values ((t, Resolved v) # ps) = v # resolved_values ps"
| "resolved_values ((t, Rejected e) # ps) = resolved_values ps"

text \<open>
  The rejection that settles first; of two rejections at the same time the one of the
  promise created first (timers of equal delay fire in creation order).
\<close>

fun first_rejection :: "'a promise list \<Rightarrow> (nat \<times> string) option" where
  "first_rejection [] = None"
| "first_rejection ((t, Resolved v) # ps) = first_rejection ps"
| "first_rejection ((t, Rejected e) # ps) =
     (case first_rejection ps of
        None \<Rightarrow> Some (t, e)
      | Some (t', e') \<Rightarrow> if t' < t then Some (t', e') else Some (t, e))"

text \<open>
  \<^verbatim>\<open>Promise.all\<close>: rejects as soon as one input rejects, with that reason;
  otherwise resolves, when the last input has, with the values in the order of the input
  array.
\<close>

definition Promise_all :: "'a promise list \<Rightarrow> 'a list promise" where
  "Promise_all ps =
     (case first_rejection ps of
        Some (t, e) \<Rightarrow> (t, Rejected e)
      | None \<Rightarrow> (foldr max (map fst ps) 0, Resolved (resolved_values ps)))"

section \<open>base.ts: the agent base class\<close>

record 'd AgentOutput =
  success :: bool
  data :: "'d option"
  error :: "string option"
  executionTime :: "int option"

text \<open>
  The readings an execution takes from its environment: \<^verbatim>\<open>Date.now()\<close> at the
  start, when the execution id is built and at the end, \<^verbatim>\<open>new Date().toISOString()\<close>,
  and \<^verbatim>\<open>Math.random().toString(36)\<close>.
\<close>

record Env =
  startTime :: int
  idTime :: int
  endTime :: int
  isoNow :: string
  random36 :: string

text \<open>\<^verbatim>\<open>BaseAgent.validateInput\<close> (the logging is not modelled).\<close>

definition validateInput :: "'o AgentInput \<Rightarrow> bool" where
  "validateInput input =
     (if \<not> truthy input \<or> typeof input \<noteq> ''object'' then False else True)"

section \<open>ingestion.ts: the Data Ingestion Agent\<close>

record IngestionInput =
  ing_region :: string
  ing_policyType :: string
  ing_focusAreas :: "string list option"

datatype SourceType = news | scientific | policy | api

text \<open>
  \<^verbatim>\<open>DataSource\<close>: \<open>src_type\<close>, \<open>src_count\<close> and \<open>src_data\<close> are the properties
  \<^verbatim>\<open>type\<close>, \<^verbatim>\<open>count\<close> and \<^verbatim>\<open>data\<close>.
\<close>

record DataSource =
  src_type :: SourceType
  src_count :: int
  topics :: "string list"
  src_data :: "json list"

text \<open>The \<^verbatim>\<open>data\<close> of an \<^verbatim>\<open>IngestionOutput\<close>.\<close>

record IngestionData =
  sources :: "DataSource list"
  ingd_region :: string
  timestamp :: string
  totalDataPoints :: int

text \<open>The four fetches; each resolves from a timer with a fixed data source.\<close>

definition fetchNewsData :: "IngestionInput \<Rightarrow> Env \<Rightarrow> DataSource promise" where
  "fetchNewsData input env =
     (1500, Resolved \<lparr>
        src_type = news,
        src_count = 15,
        topics = [''renewable energy initiatives'', ''emissions reduction targets'',
                  ''climate policy updates''],
        src_data = [
          JObj [(''title'', JStr ''New renewable energy policy announced''),
                (''source'', JStr ''Climate News Daily''),
                (''date'', JStr (isoNow env)),
                (''relevance'', JNum 0.95)],
          JObj [(''title'', JStr ''Carbon pricing mechanism gains support''),
                (''source'', JStr ''Environmental Policy Review''),
                (''date'', JStr (isoNow env)),
                (''relevance'', JNum 0.88)],
          JObj [(''title'', JStr (''Regional climate action plan for '' @ ing_region input)),
                (''source'', JStr ''Government News''),
                (''date'', JStr (isoNow env)),
                (''relevance'', JNum 0.92)]] \<rparr>)"

definition fetchScientificData :: "IngestionInput \<Rightarrow> Env \<Rightarrow> DataSource promise" where
  "fetchScientificData input env =
     (1800, Resolved \<lparr>
        src_type = scientific,
        src_count = 8,
        topics = [''climate models'', ''carbon budgets'', ''policy effectiveness''],
        src_data = [
          JObj [(''title'', JStr ''IPCC Climate Models and Regional Projections''),
                (''authors'', JArr [JStr ''IPCC'']),
                (''year'', JNum 2023),
                (''relevance'', JNum 0.96)],
          JObj [(''title'', JStr ''Carbon Budget Analysis for Developed Nations''),
                (''authors'', JArr [JStr ''Climate Analytics'']),
                (''year'', JNum 2023),
                (''relevance'', JNum 0.89)],
          JObj [(''title'', JStr ''Effectiveness of Carbon Pricing Policies''),
                (''authors'', JArr [JStr ''Energy Economics Institute'']),
                (''year'', JNum 2023),
                (''relevance'', JNum 0.85)]] \<rparr>)"

definition fetchPolicyData :: "IngestionInput \<Rightarrow> Env \<Rightarrow> DataSource promise" where
  "fetchPolicyData input env =
     (1600, Resolved \<lparr>
        src_type = policy,
        src_count = 6,
        topics = [''national policies'', ''international agreements'', ''regional mandates''],
        src_data = [
          JObj [(''name'', JStr ''Paris Agreement Commitments''),
                (''type'', JStr ''international''),
                (''status'', JStr ''active''),
                (''relevance'', JNum 0.98)],
          JObj [(''name'', JStr (ing_region input @ '' Climate Action Plan'')),
                (''type'', JStr ''regional''),
                (''status'', JStr ''active''),
                (''relevance'', JNum 0.97)],
          JObj [(''name'', JStr ''Net Zero 2050 Target''),
                (''type'', JStr ''national''),
                (''status'', JStr ''proposed''),
                (''relevance'', JNum 0.91)]] \<rparr>)"

definition fetchAPIData :: "IngestionInput \<Rightarrow> Env \<Rightarrow> DataSource promise" where
  "fetchAPIData input env =
     (1700, Resolved \<lparr>
        src_type = api,
        src_count = 12,
        topics = [''emissions data'', ''energy statistics'', ''economic indicators''],
        src_data = [
          JObj [(''metric'', JStr ''Current CO2 Emissions''),
                (''value'', JStr ''450 Mt CO2e''),
                (''trend'', JStr ''decreasing''),
                (''source'', JStr ''Global Carbon Project'')],
          JObj [(''metric'', JStr ''Renewable Energy Share''),
                (''value'', JStr ''35%''),
                (''trend'', JStr ''increasing''),
                (''source'', JStr ''International Energy Agency'')],
          JObj [(''metric'', JStr ''Energy Efficiency Index''),
                (''value'', JStr ''72/100''),
                (''trend'', JStr ''stable''),
                (''source'', JStr ''Energy Efficiency Institute'')]] \<rparr>)"

text \<open>
  The source capability the agent fans out to.  \<^verbatim>\<open>execute\<close> is written against
  any four fetches, so that a fetch that rejects or settles at another time can be
  stated; \<open>mockSources\<close> are the four of the source.
\<close>

record Sources =
  fetchNews :: "IngestionInput \<Rightarrow> Env \<Rightarrow> DataSource promise"
  fetchScientific :: "IngestionInput \<Rightarrow> Env \<Rightarrow> DataSource promise"
  fetchPolicy :: "IngestionInput \<Rightarrow> Env \<Rightarrow> DataSource promise"
  fetchAPI :: "IngestionInput \<Rightarrow> Env \<Rightarrow> DataSource promise"

definition mockSources :: Sources where
  "mockSources = \<lparr> fetchNews = fetchNewsData, fetchScientific = fetchScientificData,
                    fetchPolicy = fetchPolicyData, fetchAPI = fetchAPIData \<rparr>"

text \<open>
  \<^verbatim>\<open>DataIngestionAgent.execute\<close>.  The \<^verbatim>\<open>try\<close> block awaits
  \<^verbatim>\<open>Promise.all\<close> of the four fetches; a rejection lands in the
  \<^verbatim>\<open>catch\<close> block.
\<close>

definition DataIngestionAgent_execute_with ::
  "Sources \<Rightarrow> IngestionInput AgentInput \<Rightarrow> Env \<Rightarrow> IngestionData AgentOutput" where
  "DataIngestionAgent_execute_with src input env =
     (if \<not> validateInput input then
        \<lparr> success = False, data = None, error = Some ''Invalid ingestion input'',
          executionTime = None \<rparr>
      else
        (case input of
           InObject ingestionInput \<Rightarrow>
             (case snd (Promise_all [fetchNews src ingestionInput env,
                                     fetchScientific src ingestionInput env,
                                     fetchPolicy src ingestionInput env,
                                     fetchAPI src ingestionInput env]) of
                Resolved results \<Rightarrow>
                  (let newsData = results ! 0;
                       scientificData = results ! 1;
                       policyData = results ! 2;
                       apiData = results ! 3;
                       sources = [newsData, scientificData, policyData, apiData];
                       totalDataPoints = foldl (\<lambda>sum source. sum + src_count source) 0 sources
                   in \<lparr> success = True,
                        data = Some \<lparr> sources = sources,
                                      ingd_region = ing_region ingestionInput,
                                      timestamp = isoNow env,
                                      totalDataPoints = totalDataPoints \<rparr>,
                        error = None,
                        executionTime = Some (endTime env - startTime env) \<rparr>)
              | Rejected errorMessage \<Rightarrow>
                  \<lparr> success = False, data = None, error = Some errorMessage,
                    executionTime = Some (endTime env - startTime env) \<rparr>)
         | _ \<Rightarrow>
             \<lparr> success = False, data = None, error = Some ''Invalid ingestion input'',
               executionTime = None \<rparr>))"

definition DataIngestionAgent_execute ::
  "IngestionInput AgentInput \<Rightarrow> Env \<Rightarrow> IngestionData AgentOutput" where
  "DataIngestionAgent_execute = DataIngestionAgent_execute_with mockSources"

section \<open>analysis.ts: the Policy Analysis Agent\<close>

record AnalysisInput =
  ana_region :: string
  ana_policyType :: string
  ingestionData :: json
  ana_focusAreas :: "string list option"

record AnalysisFindings =
  emissionsReductionPotential :: string
  implementationCost :: string
  timelineYears :: int
  riskFactors :: "string list"
  opportunityFactors :: "string list"

text \<open>The \<^verbatim>\<open>data\<close> of an \<^verbatim>\<open>AnalysisOutput\<close>.\<close>

record AnalysisData =
  analysisType :: string
  anad_region :: string
  findings :: AnalysisFindings
  confidence :: rat
  iterationCount :: nat

definition maxIterations :: nat where
  "maxIterations = 3"

definition confidenceThreshold :: rat where
  "confidenceThreshold = 0.80"

text \<open>
  \<^verbatim>\<open>performAnalysis\<close>, the custom tool.  \<^verbatim>\<open>2.5 + iteration * 0.2\<close> is
  printed from its tenths, \<open>25 + iteration * 2\<close>; \<^verbatim>\<open>filter(Boolean)\<close> drops the
  \<^verbatim>\<open>undefined\<close> entries of the two factor arrays.
\<close>

definition performAnalysis :: "AnalysisInput \<Rightarrow> nat \<Rightarrow> AnalysisFindings \<times> rat" where
  "performAnalysis input iteration =
     (let baseConfidence = 0.65 + of_nat iteration * 0.12;
          confidence = min baseConfidence 0.95;
          findings = \<lparr>
            emissionsReductionPotential =
              show_nat (45 + iteration * 2) @ ''-'' @ show_nat (55 + iteration * 2) @ ''%'',
            implementationCost =
              ''$'' @ show_tenths (25 + iteration * 2) @ ''-'' @
              show_tenths (35 + iteration * 2) @ ''B'',
            timelineYears = 10 - int iteration,
            riskFactors =
              [''political resistance'', ''economic transition'', ''technology adoption''] @
              (if iteration > 0 then [''supply chain constraints''] else []),
            opportunityFactors =
              [''job creation in renewable sector'', ''improved air quality'',
               ''energy independence''] @
              (if iteration > 1 then [''economic growth potential''] else []) \<rparr>
      in (findings, confidence))"

text \<open>The three variables the loop of \<^verbatim>\<open>execute\<close> assigns.\<close>

record LoopState =
  ls_findings :: "AnalysisFindings option"
  ls_confidence :: rat
  ls_iterationCount :: nat

definition initialLoopState :: LoopState where
  "initialLoopState = \<lparr> ls_findings = None, ls_confidence = 0, ls_iterationCount = 0 \<rparr>"

text \<open>
  The \<^verbatim>\<open>for\<close> loop of \<^verbatim>\<open>execute\<close>, from counter \<open>i\<close>, written against
  any analysis tool \<open>tool\<close> (the refinement sleep between iterations only waits).
\<close>

function analysisLoop ::
  "(AnalysisInput \<Rightarrow> nat \<Rightarrow> AnalysisFindings \<times> rat) \<Rightarrow> AnalysisInput \<Rightarrow> nat \<Rightarrow>
   LoopState \<Rightarrow> LoopState" where
  "analysisLoop tool input i st =
     (if i < maxIterations then
        (if snd (tool input i) \<ge> confidenceThreshold then
           \<lparr> ls_findings = Some (fst (tool input i)), ls_confidence = snd (tool input i),
             ls_iterationCount = i + 1 \<rparr>
         else
           analysisLoop tool input (i + 1)
             \<lparr> ls_findings = Some (fst (tool input i)), ls_confidence = snd (tool input i),
               ls_iterationCount = i + 1 \<rparr>)
      else st)"
  by pat_completeness auto
termination
  by (relation "measure (\<lambda>(tool, input, i, st). maxIterations - i)") auto

text \<open>\<^verbatim>\<open>PolicyAnalysisAgent.execute\<close>, against any analysis tool.\<close>

definition PolicyAnalysisAgent_execute_with ::
  "(AnalysisInput \<Rightarrow> nat \<Rightarrow> AnalysisFindings \<times> rat) \<Rightarrow> AnalysisInput AgentInput \<Rightarrow> Env \<Rightarrow>
   AnalysisData AgentOutput" where
  "PolicyAnalysisAgent_execute_with tool input env =
     (if \<not> validateInput input then
        \<lparr> success = False, data = None, error = Some ''Invalid analysis input'',
          executionTime = None \<rparr>
      else
        (case input of
           InObject analysisInput \<Rightarrow>
             (let st = analysisLoop tool analysisInput 0 initialLoopState
              in case ls_findings st of
                   None \<Rightarrow>
                     \<lparr> success = False, data = None,
                       error = Some ''Analysis failed to produce findings'',
                       executionTime = Some (endTime env - startTime env) \<rparr>
                 | Some found \<Rightarrow>
                     \<lparr> success = True,
                       data = Some \<lparr> analysisType = ana_policyType analysisInput,
                                     anad_region = ana_region analysisInput,
                                     findings = found,
                                     confidence = ls_confidence st,
                                     iterationCount = ls_iterationCount st \<rparr>,
                       error = None,
                       executionTime = Some (endTime env - startTime env) \<rparr>)
         | _ \<Rightarrow>
             \<lparr> success = False, data = None, error = Some ''Invalid analysis input'',
               executionTime = None \<rparr>))"

definition PolicyAnalysisAgent_execute ::
  "AnalysisInput AgentInput \<Rightarrow> Env \<Rightarrow> AnalysisData AgentOutput" where
  "PolicyAnalysisAgent_execute = PolicyAnalysisAgent_execute_with performAnalysis"

section \<open>synthesis.ts: the Synthesis Agent\<close>

record SynthesisInput =
  syn_region :: string
  syn_policyType :: string
  analysisData :: json
  syn_userId :: "int option"

datatype Priority = high | medium | low

record PolicyRecommendation =
  priority :: Priority
  action :: string
  expectedImpact :: string
  timeline :: string
  implementationSteps :: "string list option"

text \<open>The \<^verbatim>\<open>data\<close> of a \<^verbatim>\<open>SynthesisOutput\<close>.\<close>

record SynthesisData =
  recommendations :: "PolicyRecommendation list"
  executiveSummary :: string
  reportGeneratedAt :: string
  memoryUpdated :: bool

definition retrieveMemoryContext :: "SynthesisInput \<Rightarrow> string" where
  "retrieveMemoryContext input =
     ''\<newline>'' @
     ''          Previous analysis for similar regions shows that renewable energy incentives\<newline>'' @
     ''          are most effective when combined with carbon pricing mechanisms. Economic\<newline>'' @
     ''          transition support is critical for worker retraining programs. Public\<newline>'' @
     ''          transportation infrastructure has shown 8-12% emissions reduction potential\<newline>'' @
     ''          in comparable regions.\<newline>'' @
     ''        ''"

definition generateRecommendations ::
  "SynthesisInput \<Rightarrow> string \<Rightarrow> PolicyRecommendation list" where
  "generateRecommendations input memoryContext = [
     \<lparr> priority = high,
       action = ''Implement renewable energy incentives and subsidies'',
       expectedImpact = ''30% emissions reduction'',
       timeline = ''2-3 years'',
       implementationSteps = Some [
         ''Design incentive structure (feed-in tariffs or tax credits)'',
         ''Establish regulatory framework'',
         ''Launch public awareness campaign'',
         ''Monitor and adjust incentive levels''] \<rparr>,
     \<lparr> priority = high,
       action = ''Establish carbon pricing mechanism (carbon tax or ETS)'',
       expectedImpact = ''15-20% emissions reduction'',
       timeline = ''1-2 years'',
       implementationSteps = Some [
         ''Conduct economic impact assessment'',
         ''Design pricing structure'',
         ''Implement phased rollout'',
         ''Create revenue recycling program''] \<rparr>,
     \<lparr> priority = high,
       action = ''Invest in public transportation infrastructure'',
       expectedImpact = ''10% emissions reduction'',
       timeline = ''3-5 years'',
       implementationSteps = Some [
         ''Assess transportation needs'',
         ''Develop infrastructure plan'',
         ''Secure funding sources'',
         ''Phase implementation by region''] \<rparr>,
     \<lparr> priority = medium,
       action = ''Support industrial energy efficiency programs'',
       expectedImpact = ''8-12% emissions reduction'',
       timeline = ''2-4 years'',
       implementationSteps = Some [
         ''Identify energy-intensive industries'',
         ''Provide technical assistance'',
         ''Offer financing for upgrades'',
         ''Track and report progress''] \<rparr>,
     \<lparr> priority = medium,
       action = ''Develop worker transition and retraining programs'',
       expectedImpact = ''Social equity improvement'',
       timeline = ''Ongoing'',
       implementationSteps = Some [
         ''Identify affected workers'',
         ''Design training programs'',
         ''Partner with educational institutions'',
         ''Provide income support during transition''] \<rparr>]"

text \<open>The summary template, before and after \<^verbatim>\<open>${input.region}\<close>.\<close>

definition summaryHead :: string where
  "summaryHead =
     ''\<newline>'' @
     ''EXECUTIVE SUMMARY: Climate Policy Recommendations for ''"

definition summaryTail :: string where
  "summaryTail =
     ''\<newline>'' @
     ''\<newline>'' @
     ''Based on comprehensive analysis of global climate policy data, scientific research,\<newline>'' @
     ''and local socio-economic context, we recommend a phased, multi-sector approach to\<newline>'' @
     ''achieve 45-55% emissions reduction over 10 years.\<newline>'' @
     ''\<newline>'' @
     ''KEY RECOMMENDATIONS:\<newline>'' @
     ''1. Renewable Energy Transition: Implement aggressive incentives to reach 50% renewable\<newline>'' @
     ''   energy share by 2035, creating 50,000+ jobs in the green energy sector.\<newline>'' @
     ''\<newline>'' @
     ''2. Carbon Pricing: Establish a carbon tax or emissions trading system starting at\<newline>'' @
     ''   $30-50/ton CO2e, increasing annually to drive behavioral change.\<newline>'' @
     ''\<newline>'' @
     ''3. Transportation Transformation: Invest $3-4B in public transit infrastructure,\<newline>'' @
     ''   targeting 30% mode shift from private vehicles.\<newline>'' @
     ''\<newline>'' @
     ''4. Industrial Efficiency: Support manufacturing sector in achieving 25% energy\<newline>'' @
     ''   efficiency improvements through technology upgrades and best practices.\<newline>'' @
     ''\<newline>'' @
     ''5. Just Transition: Allocate 15% of climate investment to worker retraining and\<newline>'' @
     ''   community support programs.\<newline>'' @
     ''\<newline>'' @
     ''EXPECTED OUTCOMES:\<newline>'' @
     ''- 45-55% reduction in greenhouse gas emissions\<newline>'' @
     ''- 100,000+ new jobs in clean energy and related sectors\<newline>'' @
     ''- $2.5-3.5B total investment required\<newline>'' @
     ''- 10-year implementation timeline\<newline>'' @
     ''- Net economic benefit of $8-12B through avoided climate damages\<newline>'' @
     ''\<newline>'' @
     ''IMPLEMENTATION RISKS:\<newline>'' @
     ''- Political resistance from fossil fuel interests\<newline>'' @
     ''- Economic transition challenges for affected workers\<newline>'' @
     ''- Technology adoption barriers\<newline>'' @
     ''- Supply chain constraints for renewable equipment\<newline>'' @
     ''\<newline>'' @
     ''CRITICAL SUCCESS FACTORS:\<newline>'' @
     ''- Strong political commitment and bipartisan support\<newline>'' @
     ''- Public engagement and education campaigns\<newline>'' @
     ''- International cooperation and technology transfer\<newline>'' @
     ''- Adequate financing mechanisms\<newline>'' @
     ''- Regular monitoring and adaptive management\<newline>'' @
     ''\<newline>'' @
     ''This analysis is based on best practices from leading climate policy jurisdictions\<newline>'' @
     ''and peer-reviewed scientific research. Regular review and adjustment is recommended\<newline>'' @
     ''as new data becomes available.\<newline>'' @
     ''        ''"

definition generateExecutiveSummary ::
  "SynthesisInput \<Rightarrow> PolicyRecommendation list \<Rightarrow> string" where
  "generateExecutiveSummary input recs = trim (summaryHead @ syn_region input @ summaryTail)"

text \<open>
  \<^verbatim>\<open>storeInMemoryBank\<close> of the source acknowledges every write.  The Memory Bank
  is an outside store, so \<^verbatim>\<open>execute\<close> is written against any write, which may
  resolve to \<^verbatim>\<open>false\<close> or reject.
\<close>

definition storeInMemoryBank ::
  "SynthesisInput \<Rightarrow> PolicyRecommendation list \<Rightarrow> string \<Rightarrow> bool promise" where
  "storeInMemoryBank input recs summary = (300, Resolved True)"

text \<open>
  \<^verbatim>\<open>SynthesisAgent.execute\<close>.  The retrieval and the two generation steps of
  the source always resolve; the write is awaited inside the same \<^verbatim>\<open>try\<close>
  block, so its rejection lands in the \<^verbatim>\<open>catch\<close> block.
\<close>

definition SynthesisAgent_execute_with ::
  "(SynthesisInput \<Rightarrow> PolicyRecommendation list \<Rightarrow> string \<Rightarrow> bool promise) \<Rightarrow>
   SynthesisInput AgentInput \<Rightarrow> Env \<Rightarrow> SynthesisData AgentOutput" where
  "SynthesisAgent_execute_with store input env =
     (if \<not> validateInput input then
        \<lparr> success = False, data = None, error = Some ''Invalid synthesis input'',
          executionTime = None \<rparr>
      else
        (case input of
           InObject synthesisInput \<Rightarrow>
             (let memoryContext = retrieveMemoryContext synthesisInput;
                  recs = generateRecommendations synthesisInput memoryContext;
                  summary = generateExecutiveSummary synthesisInput recs
              in case snd (store synthesisInput recs summary) of
                   Resolved written \<Rightarrow>
                     \<lparr> success = True,
                       data = Some \<lparr> recommendations = recs,
                                     executiveSummary = summary,
                                     reportGeneratedAt = isoNow env,
                                     memoryUpdated = written \<rparr>,
                       error = None,
                       executionTime = Some (endTime env - startTime env) \<rparr>
                 | Rejected errorMessage \<Rightarrow>
                     \<lparr> success = False, data = None, error = Some errorMessage,
                       executionTime = Some (endTime env - startTime env) \<rparr>)
         | _ \<Rightarrow>
             \<lparr> success = False, data = None, error = Some ''Invalid synthesis input'',
               executionTime = None \<rparr>))"

definition SynthesisAgent_execute ::
  "SynthesisInput AgentInput \<Rightarrow> Env \<Rightarrow> SynthesisData AgentOutput" where
  "SynthesisAgent_execute = SynthesisAgent_execute_with storeInMemoryBank"

text \<open>The order of priorities the specification asks for: high, then medium, then low.\<close>

fun priority_rank :: "Priority \<Rightarrow> nat" where
  "priority_rank high = 0"
| "priority_rank medium = 1"
| "priority_rank low = 2"

section \<open>supervisor.ts: the Supervisor Agent\<close>

record SupervisorInput =
  region :: string
  policyType :: string
  userId :: int
  focusAreas :: "string list option"

datatype Stage = Ingestion | Analysis | Synthesis

text \<open>The three mock stage calls of the source.\<close>

definition callIngestionAgent :: "SupervisorInput \<Rightarrow> Env \<Rightarrow> json AgentOutput" where
  "callIngestionAgent input env =
     \<lparr> success = True,
       data = Some (JObj [
         (''sources'', JArr [
            JObj [(''type'', JStr ''news''),
                  (''count'', JNum 15),
                  (''topics'', JArr [JStr ''renewable energy'', JStr ''emissions reduction'',
                                     JStr ''climate policy''])],
            JObj [(''type'', JStr ''scientific''),
                  (''count'', JNum 8),
                  (''topics'', JArr [JStr ''climate models'', JStr ''carbon budgets'',
                                     JStr ''policy effectiveness''])]]),
         (''region'', JStr (region input)),
         (''timestamp'', JStr (isoNow env))]),
       error = None,
       executionTime = Some 2500 \<rparr>"

definition callAnalysisAgent ::
  "SupervisorInput \<Rightarrow> json option \<Rightarrow> Env \<Rightarrow> json AgentOutput" where
  "callAnalysisAgent input ingestionOutputData env =
     \<lparr> success = True,
       data = Some (JObj [
         (''analysisType'', JStr (policyType input)),
         (''region'', JStr (region input)),
         (''findings'', JObj [
            (''emissionsReductionPotential'', JStr ''45-55%''),
            (''implementationCost'', JStr ''$2.5-3.5B''),
            (''timelineYears'', JNum 10),
            (''riskFactors'', JArr [JStr ''political resistance'', JStr ''economic transition'',
                                    JStr ''technology adoption''])]),
         (''confidence'', JNum 0.82)]),
       error = None,
       executionTime = Some 3000 \<rparr>"

definition callSynthesisAgent ::
  "SupervisorInput \<Rightarrow> json option \<Rightarrow> Env \<Rightarrow> json AgentOutput" where
  "callSynthesisAgent input analysisOutputData env =
     \<lparr> success = True,
       data = Some (JObj [
         (''recommendations'', JArr [
            JObj [(''priority'', JStr ''high''),
                  (''action'', JStr ''Implement renewable energy incentives''),
                  (''expectedImpact'', JStr ''30% emissions reduction''),
                  (''timeline'', JStr ''2-3 years'')],
            JObj [(''priority'', JStr ''high''),
                  (''action'', JStr ''Establish carbon pricing mechanism''),
                  (''expectedImpact'', JStr ''15-20% emissions reduction''),
                  (''timeline'', JStr ''1-2 years'')],
            JObj [(''priority'', JStr ''medium''),
                  (''action'', JStr ''Invest in public transportation infrastructure''),
                  (''expectedImpact'', JStr ''10% emissions reduction''),
                  (''timeline'', JStr ''3-5 years'')]]),
         (''executiveSummary'', JStr (
            ''Based on comprehensive analysis of climate policy data and local context for '' @
            region input @
            '', we recommend a phased approach focusing on renewable energy adoption and carbon pricing mechanisms. These measures can achieve 45-55% emissions reduction over 10 years.'')),
         (''reportGeneratedAt'', JStr (isoNow env))]),
       error = None,
       executionTime = Some 2000 \<rparr>"

text \<open>
  The stage calls \<^verbatim>\<open>execute\<close> makes.  It is written against any three calls.
  A call settles like any promise: it resolves with an \<^verbatim>\<open>AgentOutput\<close>, which
  may report failure by \<^verbatim>\<open>success: false\<close> with an \<^verbatim>\<open>error\<close> as
  the agents' \<^verbatim>\<open>execute\<close> methods do, or it rejects.  \<open>mockStages\<close> are the
  three calls of the source, which always resolve.
\<close>

record StageCalls =
  callIngestion :: "SupervisorInput \<Rightarrow> Env \<Rightarrow> json AgentOutput settled"
  callAnalysis :: "SupervisorInput \<Rightarrow> json option \<Rightarrow> Env \<Rightarrow> json AgentOutput settled"
  callSynthesis :: "SupervisorInput \<Rightarrow> json option \<Rightarrow> Env \<Rightarrow> json AgentOutput settled"

definition mockStages :: StageCalls where
  "mockStages =
     \<lparr> callIngestion = (\<lambda>input env. Resolved (callIngestionAgent input env)),
       callAnalysis = (\<lambda>input ingested env. Resolved (callAnalysisAgent input ingested env)),
       callSynthesis = (\<lambda>input analysed env. Resolved (callSynthesisAgent input analysed env)) \<rparr>"

record StageOutputs =
  ingestion :: "json AgentOutput"
  analysis :: "json AgentOutput"
  synthesis :: "json AgentOutput"

text \<open>The \<^verbatim>\<open>data\<close> of a \<^verbatim>\<open>SupervisorOutput\<close>.\<close>

record SupervisorData =
  sup_executionId :: string
  stages :: StageOutputs
  sup_totalExecutionTime :: int

text \<open>The \<^verbatim>\<open>catch\<close> block of \<^verbatim>\<open>SupervisorAgent.execute\<close>.\<close>

definition supervisorFailed :: "string \<Rightarrow> Env \<Rightarrow> SupervisorData AgentOutput" where
  "supervisorFailed errorMessage env =
     \<lparr> success = False, data = None, error = Some errorMessage,
       executionTime = Some (endTime env - startTime env) \<rparr>"

text \<open>
  \<^verbatim>\<open>SupervisorAgent.execute\<close>.  Beside the output it returns the stages whose
  call was made, in order.  A stage call that rejects and each \<^verbatim>\<open>throw\<close> of
  the \<^verbatim>\<open>try\<close> block land in the \<^verbatim>\<open>catch\<close> block of the same
  method, which returns the message of what was thrown.
\<close>

definition SupervisorAgent_execute_with ::
  "StageCalls \<Rightarrow> SupervisorInput AgentInput \<Rightarrow> Env \<Rightarrow>
   SupervisorData AgentOutput \<times> Stage list" where
  "SupervisorAgent_execute_with calls input env =
     (if \<not> validateInput input then
        (\<lparr> success = False, data = None, error = Some ''Invalid supervisor input'',
           executionTime = None \<rparr>, [])
      else
        (case input of
           InObject supervisorInput \<Rightarrow>
             (let executionId =
                    ''exec-'' @ show_int (idTime env) @ ''-'' @ take 9 (drop 2 (random36 env))
              in case callIngestion calls supervisorInput env of
                   Rejected errorMessage \<Rightarrow> (supervisorFailed errorMessage env, [Ingestion])
                 | Resolved ingestionOutput \<Rightarrow>
                     if \<not> success ingestionOutput then
                       (supervisorFailed
                          (''Ingestion failed: '' @ template_string (error ingestionOutput)) env,
                        [Ingestion])
                     else
                       (case callAnalysis calls supervisorInput (data ingestionOutput) env of
                          Rejected errorMessage \<Rightarrow>
                            (supervisorFailed errorMessage env, [Ingestion, Analysis])
                        | Resolved analysisOutput \<Rightarrow>
                            if \<not> success analysisOutput then
                              (supervisorFailed
                                 (''Analysis failed: '' @
                                  template_string (error analysisOutput)) env,
                               [Ingestion, Analysis])
                            else
                              (case callSynthesis calls supervisorInput
                                      (data analysisOutput) env of
                                 Rejected errorMessage \<Rightarrow>
                                   (supervisorFailed errorMessage env,
                                    [Ingestion, Analysis, Synthesis])
                               | Resolved synthesisOutput \<Rightarrow>
                                   if \<not> success synthesisOutput then
                                     (supervisorFailed
                                        (''Synthesis failed: '' @
                                         template_string (error synthesisOutput)) env,
                                      [Ingestion, Analysis, Synthesis])
                                   else
                                     (let totalTime = endTime env - startTime env
                                      in (\<lparr> success = True,
                                            data = Some \<lparr>
                                              sup_executionId = executionId,
                                              stages = \<lparr> ingestion = ingestionOutput,
                                                         analysis = analysisOutput,
                                                         synthesis = synthesisOutput \<rparr>,
                                              sup_totalExecutionTime = totalTime \<rparr>,
                                            error = None,
                                            executionTime = Some totalTime \<rparr>,
                                          [Ingestion, Analysis, Synthesis])))))
         | _ \<Rightarrow>
             (\<lparr> success = False, data = None, error = Some ''Invalid supervisor input'',
                executionTime = None \<rparr>, [])))"

definition SupervisorAgent_execute ::
  "SupervisorInput AgentInput \<Rightarrow> Env \<Rightarrow> SupervisorData AgentOutput \<times> Stage list" where
  "SupervisorAgent_execute = SupervisorAgent_execute_with mockStages"

section \<open>orchestrator.ts: the Agent Orchestrator\<close>

record ACPARequest =
  req_region :: string
  req_policyType :: string
  req_userId :: int
  req_focusAreas :: "string list option"

record ACPAResponse =
  resp_success :: bool
  executionId :: "string option"
  result :: "StageOutputs option"
  totalExecutionTime :: "int option"
  resp_error :: "string option"

text \<open>
  \<^verbatim>\<open>AgentOrchestrator.runACPA\<close>, with the stages whose call was made.  It builds
  the supervisor's input as an object literal and hands it to the supervisor; the
  supervisor's \<^verbatim>\<open>execute\<close> returns on every path, so the \<^verbatim>\<open>catch\<close>
  block of \<^verbatim>\<open>runACPA\<close> is never entered.
\<close>

definition supervisorInputOf :: "ACPARequest \<Rightarrow> SupervisorInput" where
  "supervisorInputOf request =
     \<lparr> region = req_region request,
       policyType = req_policyType request,
       userId = req_userId request,
       focusAreas = req_focusAreas request \<rparr>"

definition runACPA_with ::
  "StageCalls \<Rightarrow> ACPARequest \<Rightarrow> Env \<Rightarrow> ACPAResponse \<times> Stage list" where
  "runACPA_with calls request env =
     (let supervisorInput = supervisorInputOf request;
          run = SupervisorAgent_execute_with calls (InObject supervisorInput) env;
          output = fst run
      in (if \<not> success output then
            \<lparr> resp_success = False, executionId = None, result = None,
              totalExecutionTime = None, resp_error = error output \<rparr>
          else
            \<lparr> resp_success = True,
              executionId = map_option sup_executionId (data output),
              result = map_option stages (data output),
              totalExecutionTime = map_option sup_totalExecutionTime (data output),
              resp_error = None \<rparr>,
          snd run))"

definition runACPA :: "ACPARequest \<Rightarrow> Env \<Rightarrow> ACPAResponse \<times> Stage list" where
  "runACPA = runACPA_with mockStages"

section \<open>Typed outputs as JavaScript objects\<close>

text \<open>
  The object a typed \<^verbatim>\<open>data\<close> record is at run time, property by property as the
  agents' object literals write it.  It is what an \<^verbatim>\<open>AgentOutput\<close> of the
  supervisor, whose \<^verbatim>\<open>data\<close> is \<^verbatim>\<open>unknown\<close>, is compared with.
\<close>

fun SourceType_name :: "SourceType \<Rightarrow> string" where
  "SourceType_name news = ''news''"
| "SourceType_name scientific = ''scientific''"
| "SourceType_name policy = ''policy''"
| "SourceType_name api = ''api''"

fun Priority_name :: "Priority \<Rightarrow> string" where
  "Priority_name high = ''high''"
| "Priority_name medium = ''medium''"
| "Priority_name low = ''low''"

definition json_of_DataSource :: "DataSource \<Rightarrow> json" where
  "json_of_DataSource s =
     JObj [(''type'', JStr (SourceType_name (src_type s))),
           (''count'', JNum (of_int (src_count s))),
           (''topics'', JArr (map JStr (topics s))),
           (''data'', JArr (src_data s))]"

definition json_of_IngestionData :: "IngestionData \<Rightarrow> json" where
  "json_of_IngestionData d =
     JObj [(''sources'', JArr (map json_of_DataSource (sources d))),
           (''region'', JStr (ingd_region d)),
           (''timestamp'', JStr (timestamp d)),
           (''totalDataPoints'', JNum (of_int (totalDataPoints d)))]"

definition json_of_AnalysisFindings :: "AnalysisFindings \<Rightarrow> json" where
  "json_of_AnalysisFindings f =
     JObj [(''emissionsReductionPotential'', JStr (emissionsReductionPotential f)),
           (''implementationCost'', JStr (implementationCost f)),
           (''timelineYears'', JNum (of_int (timelineYears f))),
           (''riskFactors'', JArr (map JStr (riskFactors f))),
           (''opportunityFactors'', JArr (map JStr (opportunityFactors f)))]"

definition json_of_AnalysisData :: "AnalysisData \<Rightarrow> json" where
  "json_of_AnalysisData d =
     JObj [(''analysisType'', JStr (analysisType d)),
           (''region'', JStr (anad_region d)),
           (''findings'', json_of_AnalysisFindings (findings d)),
           (''confidence'', JNum (confidence d)),
           (''iterationCount'', JNum (of_nat (iterationCount d)))]"

definition json_of_PolicyRecommendation :: "PolicyRecommendation \<Rightarrow> json" where
  "json_of_PolicyRecommendation r =
     JObj ([(''priority'', JStr (Priority_name (priority r))),
            (''action'', JStr (action r)),
            (''expectedImpact'', JStr (expectedImpact r)),
            (''timeline'', JStr (timeline r))] @
           (case implementationSteps r of
              None \<Rightarrow> []
            | Some steps \<Rightarrow> [(''implementationSteps'', JArr (map JStr steps))]))"

definition json_of_SynthesisData :: "SynthesisData \<Rightarrow> json" where
  "json_of_SynthesisData d =
     JObj [(''recommendations'', JArr (map json_of_PolicyRecommendation (recommendations d))),
           (''executiveSummary'', JStr (executiveSummary d)),
           (''reportGeneratedAt'', JStr (reportGeneratedAt d)),
           (''memoryUpdated'', JBool (memoryUpdated d))]"

definition untyped :: "('d \<Rightarrow> json) \<Rightarrow> 'd AgentOutput \<Rightarrow> json AgentOutput" where
  "untyped enc out =
     \<lparr> success = success out, data = map_option enc (data out), error = error out,
       executionTime = executionTime out \<rparr>"

section \<open>Reading a response; the requests of the test suite\<close>

text \<open>
  \<^verbatim>\<open>response.result?.ingestion.data\<close> and its siblings, as the router reads them:
  \<^verbatim>\<open>undefined\<close> when the response has no result or the stage output no data.
\<close>

definition stageData :: "(StageOutputs \<Rightarrow> json AgentOutput) \<Rightarrow> ACPAResponse \<Rightarrow> json" where
  "stageData stage response =
     (case result response of
        None \<Rightarrow> JUndefined
      | Some outputs \<Rightarrow> (case data (stage outputs) of None \<Rightarrow> JUndefined | Some d \<Rightarrow> d))"

text \<open>\<^verbatim>\<open>Object.keys\<close> of an object, and the elements of an array.\<close>

fun field_names :: "json \<Rightarrow> string list" where
  "field_names (JObj kvs) = map fst kvs"
| "field_names v = []"

fun array_items :: "json \<Rightarrow> json list" where
  "array_items (JArr xs) = xs"
| "array_items v = []"

text \<open>The name by which an error message of the supervisor refers to a stage.\<close>

fun Stage_name :: "Stage \<Rightarrow> string" where
  "Stage_name Ingestion = ''Ingestion''"
| "Stage_name Analysis = ''Analysis''"
| "Stage_name Synthesis = ''Synthesis''"

text \<open>
  How the call of a stage settles in a run of the supervisor on \<open>input\<close>, each stage
  receiving the data of the stage before it (a rejection before it is handed on), and
  whether the stage succeeded: its call resolved with \<^verbatim>\<open>success: true\<close>.
\<close>

fun stageOutcome ::
  "StageCalls \<Rightarrow> SupervisorInput \<Rightarrow> Env \<Rightarrow> Stage \<Rightarrow> json AgentOutput settled" where
  "stageOutcome calls input env Ingestion = callIngestion calls input env"
| "stageOutcome calls input env Analysis =
     (case callIngestion calls input env of
        Rejected e \<Rightarrow> Rejected e
      | Resolved ingestionOutput \<Rightarrow> callAnalysis calls input (data ingestionOutput) env)"
| "stageOutcome calls input env Synthesis =
     (case callIngestion calls input env of
        Rejected e \<Rightarrow> Rejected e
      | Resolved ingestionOutput \<Rightarrow>
          (case callAnalysis calls input (data ingestionOutput) env of
             Rejected e \<Rightarrow> Rejected e
           | Resolved analysisOutput \<Rightarrow>
               callSynthesis calls input (data analysisOutput) env))"

definition stageSucceeded :: "StageCalls \<Rightarrow> SupervisorInput \<Rightarrow> Env \<Rightarrow> Stage \<Rightarrow> bool" where
  "stageSucceeded calls input env stage =
     (case stageOutcome calls input env stage of
        Rejected e \<Rightarrow> False
      | Resolved out \<Rightarrow> success out)"

text \<open>The stages a run has called when \<open>stage\<close> is the last one it calls.\<close>

fun stagesThrough :: "Stage \<Rightarrow> Stage list" where
  "stagesThrough Ingestion = [Ingestion]"
| "stagesThrough Analysis = [Ingestion, Analysis]"
| "stagesThrough Synthesis = [Ingestion, Analysis, Synthesis]"

text \<open>Requests and inputs of the test suite and of the specification's scenarios.\<close>

definition exampleEnv :: Env where
  "exampleEnv =
     \<lparr> startTime = 1700000000000, idTime = 1700000000001, endTime = 1700000007500,
       isoNow = ''2023-11-14T22:13:27.500Z'', random36 = ''0.4fzyo82mvyr'' \<rparr>"

definition californiaRequest :: ACPARequest where
  "californiaRequest =
     \<lparr> req_region = ''California'', req_policyType = ''Renewable Energy'', req_userId = 1,
       req_focusAreas = None \<rparr>"

definition emptyRegionRequest :: ACPARequest where
  "emptyRegionRequest =
     \<lparr> req_region = [], req_policyType = ''X'', req_userId = 1, req_focusAreas = None \<rparr>"

definition blankRegionRequest :: ACPARequest where
  "blankRegionRequest =
     \<lparr> req_region = '' '', req_policyType = ''X'', req_userId = 1, req_focusAreas = None \<rparr>"

definition californiaIngestionInput :: IngestionInput where
  "californiaIngestionInput =
     \<lparr> ing_region = ''California'', ing_policyType = ''Renewable Energy'',
       ing_focusAreas = None \<rparr>"

definition indiaIngestionInput :: IngestionInput where
  "indiaIngestionInput =
     \<lparr> ing_region = ''India'', ing_policyType = ''Carbon Pricing'', ing_focusAreas = None \<rparr>"

definition japanAnalysisInput :: AnalysisInput where
  "japanAnalysisInput =
     \<lparr> ana_region = ''Japan'', ana_policyType = ''Nuclear Energy'', ingestionData = JObj [],
       ana_focusAreas = None \<rparr>"

definition canadaSynthesisInput :: SynthesisInput where
  "canadaSynthesisInput =
     \<lparr> syn_region = ''Canada'', syn_policyType = ''Oil Phase-Out'', analysisData = JObj [],
       syn_userId = None \<rparr>"

section \<open>The analysis loop\<close>

declare analysisLoop.simps [simp del]

text \<open>The loop unrolled: with three iterations at most, it stops at the first, second or third.\<close>

lemma analysisLoop_unrolled:
  "analysisLoop tool inp 0 st =
     (if snd (tool inp 0) \<ge> confidenceThreshold then
        \<lparr> ls_findings = Some (fst (tool inp 0)), ls_confidence = snd (tool inp 0),
          ls_iterationCount = 1 \<rparr>
      else if snd (tool inp 1) \<ge> confidenceThreshold then
        \<lparr> ls_findings = Some (fst (tool inp 1)), ls_confidence = snd (tool inp 1),
          ls_iterationCount = 2 \<rparr>
      else
        \<lparr> ls_findings = Some (fst (tool inp 2)), ls_confidence = snd (tool inp 2),
          ls_iterationCount = 3 \<rparr>)"
  apply (subst analysisLoop.simps)
  apply (subst analysisLoop.simps)
  apply (subst analysisLoop.simps)
  apply (subst analysisLoop.simps)
  apply (simp add: maxIterations_def numeral_2_eq_2)
  done

lemma performAnalysis_confidence:
  "snd (performAnalysis inp i) = min (0.65 + of_nat i * 0.12) 0.95"
  by (simp add: performAnalysis_def Let_def)

lemma performAnalysis_confidence_values:
  "snd (performAnalysis inp 0) = 0.65"
  "snd (performAnalysis inp 1) = 0.77"
  "snd (performAnalysis inp (Suc 0)) = 0.77"
  "snd (performAnalysis inp 2) = 0.89"
  by (simp_all add: performAnalysis_confidence)

text \<open>
  C3.  For every object input and every analysis tool, \<^verbatim>\<open>execute\<close> succeeds
  after at least one and at most \<open>maxIterations\<close> iterations; when it reports fewer
  than \<open>maxIterations\<close> iterations, the confidence it returns is at least
  \<open>confidenceThreshold\<close>; when it reports \<open>maxIterations\<close> iterations, the finding and
  the confidence it returns are those of the last iteration, whatever the confidence.  In
  every case they are those of the last iteration that was run.
\<close>

theorem analysis_loop_bounded_last_wins:
  "\<exists>d. PolicyAnalysisAgent_execute_with tool (InObject inp) env =
          \<lparr> success = True, data = Some d, error = None,
            executionTime = Some (endTime env - startTime env) \<rparr>
     \<and> 1 \<le> iterationCount d \<and> iterationCount d \<le> maxIterations
     \<and> (iterationCount d < maxIterations \<longrightarrow> confidence d \<ge> confidenceThreshold)
     \<and> (iterationCount d = maxIterations \<longrightarrow>
          findings d = fst (tool inp (maxIterations - 1)) \<and>
          confidence d = snd (tool inp (maxIterations - 1)))
     \<and> findings d = fst (tool inp (iterationCount d - 1))
     \<and> confidence d = snd (tool inp (iterationCount d - 1))
     \<and> maxIterations = 3 \<and> confidenceThreshold = 0.80"
  by (simp add: PolicyAnalysisAgent_execute_with_def validateInput_def analysisLoop_unrolled
        maxIterations_def confidenceThreshold_def numeral_2_eq_2)

theorem analysis_loop_bounded_last_wins_witness:
  "(\<exists>d. data (PolicyAnalysisAgent_execute_with performAnalysis
              (InObject japanAnalysisInput) exampleEnv) = Some d
        \<and> iterationCount d = maxIterations
        \<and> findings d = fst (performAnalysis japanAnalysisInput 2))
   \<and> (\<exists>d. data (PolicyAnalysisAgent_execute_with
                   (\<lambda>input i. (fst (performAnalysis input i), 0.9))
                   (InObject japanAnalysisInput) exampleEnv) = Some d
        \<and> iterationCount d = 1 \<and> iterationCount d < maxIterations
        \<and> confidenceThreshold \<le> confidence d)"
proof -
  obtain d where d:
    "PolicyAnalysisAgent_execute_with performAnalysis (InObject japanAnalysisInput) exampleEnv =
       \<lparr> success = True, data = Some d, error = None,
         executionTime = Some (endTime exampleEnv - startTime exampleEnv) \<rparr>"
    "iterationCount d \<le> maxIterations"
    "iterationCount d < maxIterations \<longrightarrow> confidence d \<ge> confidenceThreshold"
    "iterationCount d = maxIterations \<longrightarrow>
       findings d = fst (performAnalysis japanAnalysisInput (maxIterations - 1))"
    "confidence d = snd (performAnalysis japanAnalysisInput (iterationCount d - 1))"
    using analysis_loop_bounded_last_wins [of performAnalysis japanAnalysisInput exampleEnv]
    by blast
  have full: "iterationCount d = maxIterations"
  proof (rule ccontr)
    assume "iterationCount d \<noteq> maxIterations"
    with d(2) have less: "iterationCount d < maxIterations" by simp
    with d(3) have "confidence d \<ge> confidenceThreshold" by simp
    moreover from less have "iterationCount d - 1 = 0 \<or> iterationCount d - 1 = 1"
      by (auto simp: maxIterations_def)
    ultimately show False
      using d(5) by (auto simp: performAnalysis_confidence_values confidenceThreshold_def)
  qed
  with d(4) have "findings d = fst (performAnalysis japanAnalysisInput 2)"
    by (simp add: maxIterations_def)
  with d(1) full have first: "\<exists>d. data (PolicyAnalysisAgent_execute_with performAnalysis
              (InObject japanAnalysisInput) exampleEnv) = Some d
        \<and> iterationCount d = maxIterations
        \<and> findings d = fst (performAnalysis japanAnalysisInput 2)"
    by simp
  obtain e where e:
    "PolicyAnalysisAgent_execute_with (\<lambda>input i. (fst (performAnalysis input i), 0.9))
       (InObject japanAnalysisInput) exampleEnv =
       \<lparr> success = True, data = Some e, error = None,
         executionTime = Some (endTime exampleEnv - startTime exampleEnv) \<rparr>"
    "1 \<le> iterationCount e"
    using analysis_loop_bounded_last_wins
      [of "\<lambda>input i. (fst (performAnalysis input i), 0.9)" japanAnalysisInput exampleEnv]
    by blast
  have "data (PolicyAnalysisAgent_execute_with (\<lambda>input i. (fst (performAnalysis input i), 0.9))
       (InObject japanAnalysisInput) exampleEnv) = Some e"
    using e(1) by simp
  moreover have "iterationCount e = 1 \<and> confidenceThreshold \<le> confidence e"
    using e(1)
    by (auto simp: PolicyAnalysisAgent_execute_with_def validateInput_def analysisLoop_unrolled
          confidenceThreshold_def)
  ultimately have second: "\<exists>d. data (PolicyAnalysisAgent_execute_with
                   (\<lambda>input i. (fst (performAnalysis input i), 0.9))
                   (InObject japanAnalysisInput) exampleEnv) = Some d
        \<and> iterationCount d = 1 \<and> iterationCount d < maxIterations
        \<and> confidenceThreshold \<le> confidence d"
    by (simp add: maxIterations_def)
  from first second show ?thesis by simp
qed

text \<open>\<^verbatim>\<open>execute\<close> of the Policy Analysis Agent on an object.\<close>

lemma policy_analysis_run:
  "PolicyAnalysisAgent_execute (InObject inp) env =
     \<lparr> success = True,
       data = Some \<lparr> analysisType = ana_policyType inp, anad_region = ana_region inp,
                     findings = fst (performAnalysis inp 2), confidence = 0.89,
                     iterationCount = 3 \<rparr>,
       error = None,
       executionTime = Some (endTime env - startTime env) \<rparr>"
  by (simp add: PolicyAnalysisAgent_execute_def PolicyAnalysisAgent_execute_with_def
        validateInput_def analysisLoop_unrolled performAnalysis_confidence_values
        confidenceThreshold_def)

text \<open>
  C10.  For every object input the Policy Analysis Agent succeeds with three iterations
  and confidence 0.89, a function of the input and the clock alone.  The confidence of
  iteration \<open>i\<close> is \<open>min (0.65 + i * 0.12) 0.95\<close>; it grows strictly from each of the
  three iterations to the next, is below the threshold 0.80 at the first two and reaches
  it at the third.  No input makes \<^verbatim>\<open>execute\<close> report
  \<^verbatim>\<open>Analysis failed to produce findings\<close>.
\<close>

theorem policy_analysis_always_three_iterations:
  "PolicyAnalysisAgent_execute (InObject inp) env =
     \<lparr> success = True,
       data = Some \<lparr> analysisType = ana_policyType inp, anad_region = ana_region inp,
                     findings = fst (performAnalysis inp 2), confidence = 0.89,
                     iterationCount = 3 \<rparr>,
       error = None,
       executionTime = Some (endTime env - startTime env) \<rparr>
   \<and> snd (performAnalysis inp i) = min (0.65 + of_nat i * 0.12) 0.95
   \<and> (i < 3 \<longrightarrow> snd (performAnalysis inp i) < snd (performAnalysis inp (i + 1)))
   \<and> snd (performAnalysis inp 0) < confidenceThreshold
   \<and> snd (performAnalysis inp 1) < confidenceThreshold
   \<and> confidenceThreshold \<le> snd (performAnalysis inp 2)
   \<and> error (PolicyAnalysisAgent_execute input env) \<noteq> Some ''Analysis failed to produce findings''"
proof -
  have run: "PolicyAnalysisAgent_execute (InObject inp) env =
     \<lparr> success = True,
       data = Some \<lparr> analysisType = ana_policyType inp, anad_region = ana_region inp,
                     findings = fst (performAnalysis inp 2), confidence = 0.89,
                     iterationCount = 3 \<rparr>,
       error = None,
       executionTime = Some (endTime env - startTime env) \<rparr>" for inp
    by (rule policy_analysis_run)
  have grows: "i < 3 \<longrightarrow> snd (performAnalysis inp i) < snd (performAnalysis inp (i + 1))"
  proof
    assume "i < 3"
    then consider "i = 0" | "i = 1" | "i = 2" by linarith
    then show "snd (performAnalysis inp i) < snd (performAnalysis inp (i + 1))"
      by cases (simp_all add: performAnalysis_confidence)
  qed
  have never: "error (PolicyAnalysisAgent_execute input env) \<noteq>
      Some ''Analysis failed to produce findings''"
  proof (cases input)
    case (InObject obj)
    then show ?thesis by (simp add: run)
  qed (simp_all add: PolicyAnalysisAgent_execute_def PolicyAnalysisAgent_execute_with_def
         validateInput_def)
  show ?thesis
    using run grows never
    by (simp add: performAnalysis_confidence performAnalysis_confidence_values
          confidenceThreshold_def)
qed

theorem policy_analysis_always_three_iterations_witness:
  "(1::nat) < 3
   \<and> snd (performAnalysis japanAnalysisInput 1) < snd (performAnalysis japanAnalysisInput 2)
   \<and> map_option iterationCount
       (data (PolicyAnalysisAgent_execute (InObject japanAnalysisInput) exampleEnv)) = Some 3
   \<and> map_option confidence
       (data (PolicyAnalysisAgent_execute (InObject japanAnalysisInput) exampleEnv)) = Some 0.89"
  using policy_analysis_always_three_iterations
    [of japanAnalysisInput exampleEnv 1 "InObject japanAnalysisInput"]
  by simp

section \<open>Ingestion: fan-out and aggregation\<close>

lemma first_rejection_member:
  "first_rejection ps = Some (t, e) \<Longrightarrow> (t, Rejected e) \<in> set ps"
  by (induction ps arbitrary: t e rule: first_rejection.induct)
     (auto split: option.splits if_splits)

lemma first_rejection_None_iff:
  "first_rejection ps = None \<longleftrightarrow> (\<forall>t e. (t, Rejected e) \<notin> set ps)"
  by (induction ps rule: first_rejection.induct) (auto split: option.splits if_splits)

lemma in_map_snd: "x \<in> set (map snd ps) \<Longrightarrow> \<exists>t. (t, x) \<in> set ps"
  by auto

lemma pair_in_map_snd: "(t, x) \<in> set ps \<Longrightarrow> x \<in> set (map snd ps)"
  by force

text \<open>One rejected input makes \<^verbatim>\<open>Promise.all\<close> reject, with the reason of an input.\<close>

lemma Promise_all_rejects:
  assumes "(t, Rejected e) \<in> set ps"
  shows "\<exists>t' e'. Promise_all ps = (t', Rejected e') \<and> (t', Rejected e') \<in> set ps"
proof -
  from assms obtain t' e' where "first_rejection ps = Some (t', e')"
    using first_rejection_None_iff [of ps] by (cases "first_rejection ps") auto
  then show ?thesis
    using first_rejection_member [of ps t' e'] by (simp add: Promise_all_def)
qed

text \<open>A resolved \<^verbatim>\<open>Promise.all\<close> has one value for each input.\<close>

lemma resolved_values_length:
  "first_rejection ps = None \<Longrightarrow> length (resolved_values ps) = length ps"
  by (induction ps rule: first_rejection.induct) (auto split: option.splits if_splits)

lemma Promise_all_resolved_length:
  "Promise_all ps = (t, Resolved vs) \<Longrightarrow> length vs = length ps"
  by (auto simp: Promise_all_def resolved_values_length split: option.splits)

text \<open>Four resolved inputs give their values in the order of the array, whatever the times.\<close>

lemma Promise_all_four_resolved:
  "snd (Promise_all [(t1, Resolved a), (t2, Resolved b), (t3, Resolved c), (t4, Resolved d)]) =
     Resolved [a, b, c, d]"
  by (simp add: Promise_all_def)

lemma mock_ingestion_data:
  "\<exists>m. data (DataIngestionAgent_execute (InObject inp) env) = Some m
       \<and> map src_type (sources m) = [news, scientific, policy, api]
       \<and> map src_count (sources m) = [15, 8, 6, 12]
       \<and> totalDataPoints m = 41"
  by (simp add: DataIngestionAgent_execute_def DataIngestionAgent_execute_with_def
        validateInput_def Promise_all_def Let_def mockSources_def fetchNewsData_def
        fetchScientificData_def fetchPolicyData_def fetchAPIData_def)

lemma mock_ingestion_needs_iso_only:
  "isoNow env' = isoNow env \<Longrightarrow>
   data (DataIngestionAgent_execute (InObject inp) env') =
   data (DataIngestionAgent_execute (InObject inp) env)"
  by (simp add: DataIngestionAgent_execute_def DataIngestionAgent_execute_with_def
        validateInput_def Promise_all_def Let_def mockSources_def fetchNewsData_def
        fetchScientificData_def fetchPolicyData_def fetchAPIData_def)

text \<open>
  C5.  When the four fetches resolve, after whatever delays \<open>t1\<close>, ..., \<open>t4\<close>, the
  bundle holds their results in the order news, scientific, policy, api of the fetch
  calls, and its total is the sum of the counts of the sources.  With the fetches of the
  source the kinds of the sources are news, scientific, policy, api in this order, and two
  runs on the same input that read the same timestamp return the same data.
\<close>

theorem ingestion_total_and_fixed_order:
  assumes "fetchNews src inp env = (t1, Resolved a)"
      and "fetchScientific src inp env = (t2, Resolved b)"
      and "fetchPolicy src inp env = (t3, Resolved c)"
      and "fetchAPI src inp env = (t4, Resolved d)"
  shows "DataIngestionAgent_execute_with src (InObject inp) env =
           \<lparr> success = True,
             data = Some \<lparr> sources = [a, b, c, d], ingd_region = ing_region inp,
                           timestamp = isoNow env,
                           totalDataPoints = sum_list (map src_count [a, b, c, d]) \<rparr>,
             error = None,
             executionTime = Some (endTime env - startTime env) \<rparr>
       \<and> (\<exists>m. data (DataIngestionAgent_execute (InObject inp) env) = Some m
              \<and> map src_type (sources m) = [news, scientific, policy, api]
              \<and> totalDataPoints m = sum_list (map src_count (sources m)))
       \<and> (isoNow env' = isoNow env \<longrightarrow>
            data (DataIngestionAgent_execute (InObject inp) env') =
            data (DataIngestionAgent_execute (InObject inp) env))"
proof -
  have "DataIngestionAgent_execute_with src (InObject inp) env =
           \<lparr> success = True,
             data = Some \<lparr> sources = [a, b, c, d], ingd_region = ing_region inp,
                           timestamp = isoNow env,
                           totalDataPoints = sum_list (map src_count [a, b, c, d]) \<rparr>,
             error = None,
             executionTime = Some (endTime env - startTime env) \<rparr>"
    using assms
    by (simp add: DataIngestionAgent_execute_with_def validateInput_def
          Promise_all_four_resolved Let_def)
  moreover have "\<exists>m. data (DataIngestionAgent_execute (InObject inp) env) = Some m
              \<and> map src_type (sources m) = [news, scientific, policy, api]
              \<and> totalDataPoints m = sum_list (map src_count (sources m))"
    using mock_ingestion_data [of inp env] by auto
  ultimately show ?thesis
    using mock_ingestion_needs_iso_only [of env' env inp] by simp
qed

text \<open>The witness lets the news fetch finish last, at 5000 ms; the news source stays first.\<close>

theorem ingestion_total_and_fixed_order_witness:
  "\<exists>m. data (DataIngestionAgent_execute_with
              (mockSources \<lparr> fetchNews := \<lambda>input env. (5000, snd (fetchNewsData input env)) \<rparr>)
              (InObject indiaIngestionInput) exampleEnv) = Some m
       \<and> map src_type (sources m) = [news, scientific, policy, api]
       \<and> totalDataPoints m = 41"
proof -
  let ?src = "mockSources \<lparr> fetchNews := \<lambda>input env. (5000, snd (fetchNewsData input env)) \<rparr>"
  obtain a where a: "fetchNews ?src indiaIngestionInput exampleEnv = (5000, Resolved a)"
    "src_type a = news" "src_count a = 15"
    by (simp add: fetchNewsData_def)
  obtain b where b: "fetchScientific ?src indiaIngestionInput exampleEnv = (1800, Resolved b)"
    "src_type b = scientific" "src_count b = 8"
    by (simp add: mockSources_def fetchScientificData_def)
  obtain c where c: "fetchPolicy ?src indiaIngestionInput exampleEnv = (1600, Resolved c)"
    "src_type c = policy" "src_count c = 6"
    by (simp add: mockSources_def fetchPolicyData_def)
  obtain d where d: "fetchAPI ?src indiaIngestionInput exampleEnv = (1700, Resolved d)"
    "src_type d = api" "src_count d = 12"
    by (simp add: mockSources_def fetchAPIData_def)
  from ingestion_total_and_fixed_order [OF a(1) b(1) c(1) d(1)]
  have "data (DataIngestionAgent_execute_with ?src (InObject indiaIngestionInput) exampleEnv) =
          Some \<lparr> sources = [a, b, c, d], ingd_region = ing_region indiaIngestionInput,
                 timestamp = isoNow exampleEnv,
                 totalDataPoints = sum_list (map src_count [a, b, c, d]) \<rparr>"
    by simp
  then show ?thesis
    using a b c d by simp
qed

section \<open>Synthesis\<close>

lemma dropWhile_keeps:
  "c \<in> set s \<Longrightarrow> \<not> P c \<Longrightarrow> c \<in> set (dropWhile P s)"
  by (induction s) auto

lemma trim_not_empty:
  assumes "c \<in> set s" and "\<not> is_whitespace c"
  shows "trim s \<noteq> []"
proof -
  from assms have "c \<in> set (rev (dropWhile is_whitespace s))"
    by (simp add: dropWhile_keeps)
  then have "c \<in> set (dropWhile is_whitespace (rev (dropWhile is_whitespace s)))"
    using assms(2) by (rule dropWhile_keeps)
  moreover have "xs \<noteq> []" if "c \<in> set xs" for xs
    using that by (cases xs) simp_all
  ultimately have "dropWhile is_whitespace (rev (dropWhile is_whitespace s)) \<noteq> []"
    by blast
  then show ?thesis
    unfolding trim_def by (simp only: rev_is_Nil_conv not_False_eq_True)
qed

lemma summary_not_empty: "generateExecutiveSummary inp recs \<noteq> []"
proof -
  have "CHR ''E'' \<in> set (summaryHead @ syn_region inp @ summaryTail)"
    by (simp add: summaryHead_def)
  moreover have "\<not> is_whitespace CHR ''E''"
    by (simp add: is_whitespace_def)
  ultimately show ?thesis
    unfolding generateExecutiveSummary_def by (rule trim_not_empty)
qed

lemma recommendations_sorted:
  "generateRecommendations inp ctx \<noteq> [] \<and>
   sorted (map (\<lambda>r. priority_rank (priority r)) (generateRecommendations inp ctx)) \<and>
   length (generateRecommendations inp ctx) = 5"
  by (simp add: generateRecommendations_def)

text \<open>\<^verbatim>\<open>execute\<close> on an object, by how the memory write settles.\<close>

lemma synthesis_object:
  "SynthesisAgent_execute_with store (InObject inp) env =
     (case snd (store inp (generateRecommendations inp (retrieveMemoryContext inp))
                  (generateExecutiveSummary inp
                     (generateRecommendations inp (retrieveMemoryContext inp)))) of
        Resolved written \<Rightarrow>
          \<lparr> success = True,
            data = Some \<lparr> recommendations = generateRecommendations inp (retrieveMemoryContext inp),
                          executiveSummary = generateExecutiveSummary inp
                            (generateRecommendations inp (retrieveMemoryContext inp)),
                          reportGeneratedAt = isoNow env,
                          memoryUpdated = written \<rparr>,
            error = None,
            executionTime = Some (endTime env - startTime env) \<rparr>
      | Rejected errorMessage \<Rightarrow>
          \<lparr> success = False, data = None, error = Some errorMessage,
            executionTime = Some (endTime env - startTime env) \<rparr>)"
  by (simp add: SynthesisAgent_execute_with_def validateInput_def Let_def)

lemma invalid_input_cases:
  "validateInput input \<longleftrightarrow> (\<exists>obj. input = InObject obj)"
  by (cases input) (simp_all add: validateInput_def)

lemma synthesis_not_object:
  "\<not> validateInput input \<Longrightarrow>
   SynthesisAgent_execute_with store input env =
     \<lparr> success = False, data = None, error = Some ''Invalid synthesis input'',
       executionTime = None \<rparr>"
  by (simp add: SynthesisAgent_execute_with_def)

text \<open>
  C6.  Whenever the synthesis stage succeeds, whatever the memory write did, its data hold
  a non-empty list of recommendations in which the priorities never go up again (every
  high before every medium, every medium before every low), and a non-empty summary.
  The list is the one the recommendation step produced, in its order: nothing sorts it.
\<close>

theorem synthesis_success_sorted_nonempty:
  assumes "success (SynthesisAgent_execute_with store input env)"
  shows "\<exists>d inp. data (SynthesisAgent_execute_with store input env) = Some d
          \<and> recommendations d \<noteq> []
          \<and> sorted (map (\<lambda>r. priority_rank (priority r)) (recommendations d))
          \<and> executiveSummary d \<noteq> []
          \<and> input = InObject inp
          \<and> recommendations d = generateRecommendations inp (retrieveMemoryContext inp)"
proof (cases "validateInput input")
  case False
  with assms show ?thesis by (simp add: synthesis_not_object)
next
  case True
  then obtain inp where inp: "input = InObject inp"
    by (auto simp: invalid_input_cases)
  show ?thesis
  proof (cases "snd (store inp (generateRecommendations inp (retrieveMemoryContext inp))
                  (generateExecutiveSummary inp
                     (generateRecommendations inp (retrieveMemoryContext inp))))")
    case (Resolved written)
    then show ?thesis
      using inp recommendations_sorted [of inp "retrieveMemoryContext inp"]
        summary_not_empty [of inp]
      by (simp add: synthesis_object)
  next
    case (Rejected e)
    with assms inp show ?thesis by (simp add: synthesis_object)
  qed
qed

theorem synthesis_success_sorted_nonempty_witness:
  "success (SynthesisAgent_execute_with storeInMemoryBank (InObject canadaSynthesisInput) exampleEnv)
   \<and> (\<exists>d. data (SynthesisAgent_execute_with storeInMemoryBank
                  (InObject canadaSynthesisInput) exampleEnv) = Some d
          \<and> length (recommendations d) = 5
          \<and> sorted (map (\<lambda>r. priority_rank (priority r)) (recommendations d))
          \<and> executiveSummary d \<noteq> [])"
proof -
  have ok: "success (SynthesisAgent_execute_with storeInMemoryBank
      (InObject canadaSynthesisInput) exampleEnv)"
    by (simp add: synthesis_object storeInMemoryBank_def)
  from synthesis_success_sorted_nonempty [OF ok]
  obtain d inp where d:
    "data (SynthesisAgent_execute_with storeInMemoryBank
       (InObject canadaSynthesisInput) exampleEnv) = Some d"
    "sorted (map (\<lambda>r. priority_rank (priority r)) (recommendations d))"
    "executiveSummary d \<noteq> []"
    "recommendations d = generateRecommendations inp (retrieveMemoryContext inp)"
    by blast
  from d(4) have "length (recommendations d) = 5"
    by (simp add: recommendations_sorted)
  with ok d show ?thesis by simp
qed

section \<open>The supervisor and the orchestrator\<close>

text \<open>\<^verbatim>\<open>execute\<close> on an object, by how the three stage calls settle.\<close>

lemma supervisor_run:
  "SupervisorAgent_execute_with calls (InObject si) env =
     (case stageOutcome calls si env Ingestion of
        Rejected e \<Rightarrow> (supervisorFailed e env, [Ingestion])
      | Resolved i \<Rightarrow>
          if \<not> success i then
            (supervisorFailed (''Ingestion failed: '' @ template_string (error i)) env,
             [Ingestion])
          else
            (case stageOutcome calls si env Analysis of
               Rejected e \<Rightarrow> (supervisorFailed e env, [Ingestion, Analysis])
             | Resolved a \<Rightarrow>
                 if \<not> success a then
                   (supervisorFailed (''Analysis failed: '' @ template_string (error a)) env,
                    [Ingestion, Analysis])
                 else
                   (case stageOutcome calls si env Synthesis of
                      Rejected e \<Rightarrow> (supervisorFailed e env, [Ingestion, Analysis, Synthesis])
                    | Resolved s \<Rightarrow>
                        if \<not> success s then
                          (supervisorFailed
                             (''Synthesis failed: '' @ template_string (error s)) env,
                           [Ingestion, Analysis, Synthesis])
                        else
                          (\<lparr> success = True,
                             data = Some \<lparr>
                               sup_executionId =
                                 ''exec-'' @ show_int (idTime env) @ ''-'' @
                                 take 9 (drop 2 (random36 env)),
                               stages = \<lparr> ingestion = i, analysis = a, synthesis = s \<rparr>,
                               sup_totalExecutionTime = endTime env - startTime env \<rparr>,
                             error = None,
                             executionTime = Some (endTime env - startTime env) \<rparr>,
                           [Ingestion, Analysis, Synthesis]))))"
  by (simp add: SupervisorAgent_execute_with_def validateInput_def Let_def
        split: settled.splits)

text \<open>The response of \<^verbatim>\<open>runACPA\<close> to a failed and to a successful supervisor.\<close>

lemma runACPA_with_failed:
  "SupervisorAgent_execute_with calls (InObject (supervisorInputOf req)) env =
     (supervisorFailed reason env, entered) \<Longrightarrow>
   runACPA_with calls req env =
     (\<lparr> resp_success = False, executionId = None, result = None,
        totalExecutionTime = None, resp_error = Some reason \<rparr>, entered)"
  by (simp add: runACPA_with_def Let_def supervisorFailed_def)

text \<open>
  C8, as the specification states it, fails: when a stage call throws (here the analysis
  call, with \<^verbatim>\<open>connection reset\<close>), the error that reaches the caller is the
  thrown message alone and names no stage; and it reaches the caller as the
  \<^verbatim>\<open>error\<close> of a response that \<^verbatim>\<open>runACPA\<close> returns, not as an
  exception.
\<close>

theorem thrown_stage_error_names_no_stage_counterexample:
  "runACPA_with
     (mockStages \<lparr> callAnalysis := \<lambda>input ingested env. Rejected ''connection reset'' \<rparr>)
     californiaRequest exampleEnv =
   (\<lparr> resp_success = False, executionId = None, result = None, totalExecutionTime = None,
      resp_error = Some ''connection reset'' \<rparr>,
    [Ingestion, Analysis])"
  by (rule runACPA_with_failed)
     (simp add: supervisor_run mockStages_def callIngestionAgent_def)

text \<open>
  C8, amended.  A run ends in one of two ways.  Either the response reports success and
  carries the outputs of all three stages, each of them successful.  Or one stage did not
  succeed (it reported failure or its call threw), the stages before it succeeded, no
  later stage was called, and the response that \<^verbatim>\<open>runACPA\<close> returns reports
  failure with no stage result and one error message; when the stage reported failure,
  the message names the stage and gives the stage's error.  The failure is raised and
  caught inside \<^verbatim>\<open>SupervisorAgent.execute\<close>; the caller receives it in the
  response.
\<close>

theorem run_complete_or_failed_at_one_stage:
  "(\<exists>i a s. fst (runACPA_with calls req env) =
        \<lparr> resp_success = True,
          executionId =
            Some (''exec-'' @ show_int (idTime env) @ ''-'' @ take 9 (drop 2 (random36 env))),
          result = Some \<lparr> ingestion = i, analysis = a, synthesis = s \<rparr>,
          totalExecutionTime = Some (endTime env - startTime env),
          resp_error = None \<rparr>
      \<and> success i \<and> success a \<and> success s
      \<and> stageOutcome calls (supervisorInputOf req) env Ingestion = Resolved i
      \<and> stageOutcome calls (supervisorInputOf req) env Analysis = Resolved a
      \<and> stageOutcome calls (supervisorInputOf req) env Synthesis = Resolved s
      \<and> snd (runACPA_with calls req env) = [Ingestion, Analysis, Synthesis])
   \<or> (\<exists>stage reason. fst (runACPA_with calls req env) =
        \<lparr> resp_success = False, executionId = None, result = None,
          totalExecutionTime = None, resp_error = Some reason \<rparr>
      \<and> stageSucceeded calls (supervisorInputOf req) env stage = False
      \<and> (\<forall>out. stageOutcome calls (supervisorInputOf req) env stage = Resolved out \<longrightarrow>
            reason = Stage_name stage @ '' failed: '' @ template_string (error out))
      \<and> list_all (stageSucceeded calls (supervisorInputOf req) env) (butlast (stagesThrough stage))
      \<and> snd (runACPA_with calls req env) = stagesThrough stage)"
proof -
  let ?si = "supervisorInputOf req"
  let ?run = "SupervisorAgent_execute_with calls (InObject ?si) env"
  have failed: ?thesis
    if "?run = (supervisorFailed reason env, stagesThrough stage)"
      and "stageSucceeded calls ?si env stage = False"
      and "\<forall>out. stageOutcome calls ?si env stage = Resolved out \<longrightarrow>
            reason = Stage_name stage @ '' failed: '' @ template_string (error out)"
      and "list_all (stageSucceeded calls ?si env) (butlast (stagesThrough stage))"
    for stage reason
  proof -
    from that(1) have "runACPA_with calls req env =
        (\<lparr> resp_success = False, executionId = None, result = None,
           totalExecutionTime = None, resp_error = Some reason \<rparr>, stagesThrough stage)"
      by (rule runACPA_with_failed)
    then have "fst (runACPA_with calls req env) =
        \<lparr> resp_success = False, executionId = None, result = None,
          totalExecutionTime = None, resp_error = Some reason \<rparr>
      \<and> stageSucceeded calls ?si env stage = False
      \<and> (\<forall>out. stageOutcome calls ?si env stage = Resolved out \<longrightarrow>
            reason = Stage_name stage @ '' failed: '' @ template_string (error out))
      \<and> list_all (stageSucceeded calls ?si env) (butlast (stagesThrough stage))
      \<and> snd (runACPA_with calls req env) = stagesThrough stage"
      using that(2,3,4) by simp
    then show ?thesis by blast
  qed
  show ?thesis
  proof (cases "stageOutcome calls ?si env Ingestion")
    case (Rejected e)
    then show ?thesis
      by (intro failed [of e Ingestion]) (simp_all add: supervisor_run stageSucceeded_def)
  next
    case i: (Resolved i)
    show ?thesis
    proof (cases "success i")
      case False
      with i show ?thesis
        by (intro failed [of "''Ingestion failed: '' @ template_string (error i)" Ingestion])
           (simp_all add: supervisor_run stageSucceeded_def)
    next
      case si: True
      show ?thesis
      proof (cases "stageOutcome calls ?si env Analysis")
        case (Rejected e)
        with i si show ?thesis
          by (intro failed [of e Analysis]) (simp_all add: supervisor_run stageSucceeded_def)
      next
        case a: (Resolved a)
        show ?thesis
        proof (cases "success a")
          case False
          with i si a show ?thesis
            by (intro failed [of "''Analysis failed: '' @ template_string (error a)" Analysis])
               (simp_all add: supervisor_run stageSucceeded_def)
        next
          case sa: True
          show ?thesis
          proof (cases "stageOutcome calls ?si env Synthesis")
            case (Rejected e)
            with i si a sa show ?thesis
              by (intro failed [of e Synthesis])
                 (simp_all add: supervisor_run stageSucceeded_def)
          next
            case s: (Resolved s)
            show ?thesis
            proof (cases "success s")
              case False
              with i si a sa s show ?thesis
                by (intro failed
                      [of "''Synthesis failed: '' @ template_string (error s)" Synthesis])
                   (simp_all add: supervisor_run stageSucceeded_def)
            next
              case True
              with i si a sa s have "?run =
                  (\<lparr> success = True,
                     data = Some \<lparr>
                       sup_executionId =
                         ''exec-'' @ show_int (idTime env) @ ''-'' @
                         take 9 (drop 2 (random36 env)),
                       stages = \<lparr> ingestion = i, analysis = a, synthesis = s \<rparr>,
                       sup_totalExecutionTime = endTime env - startTime env \<rparr>,
                     error = None,
                     executionTime = Some (endTime env - startTime env) \<rparr>,
                   [Ingestion, Analysis, Synthesis])"
                by (simp add: supervisor_run)
              with i si a sa s True show ?thesis
                by (simp add: runACPA_with_def Let_def)
            qed
          qed
        qed
      qed
    qed
  qed
qed

text \<open>The witness: the three mock stages succeed; an analysis stage that reports failure ends the run.\<close>

theorem run_complete_or_failed_at_one_stage_witness:
  "resp_success (fst (runACPA_with mockStages californiaRequest exampleEnv))
   \<and> snd (runACPA_with mockStages californiaRequest exampleEnv) = [Ingestion, Analysis, Synthesis]
   \<and> runACPA_with
       (mockStages \<lparr> callAnalysis := \<lambda>input ingested env. Resolved
          \<lparr> success = False, data = None, error = Some ''no findings'',
            executionTime = None \<rparr> \<rparr>)
       californiaRequest exampleEnv =
     (\<lparr> resp_success = False, executionId = None, result = None, totalExecutionTime = None,
        resp_error = Some ''Analysis failed: no findings'' \<rparr>,
      [Ingestion, Analysis])"
  using run_complete_or_failed_at_one_stage [of mockStages californiaRequest exampleEnv]
    run_complete_or_failed_at_one_stage
      [of "mockStages \<lparr> callAnalysis := \<lambda>input ingested env. Resolved
            \<lparr> success = False, data = None, error = Some ''no findings'',
              executionTime = None \<rparr> \<rparr>" californiaRequest exampleEnv]
  by (simp add: runACPA_with_def supervisor_run Let_def supervisorFailed_def mockStages_def
        callIngestionAgent_def callAnalysisAgent_def callSynthesisAgent_def)

text \<open>A run of the orchestrator as the source wires it: every stage is a mock call.\<close>

lemma mock_run:
  "runACPA req env =
     (\<lparr> resp_success = True,
        executionId =
          Some (''exec-'' @ show_int (idTime env) @ ''-'' @ take 9 (drop 2 (random36 env))),
        result = Some \<lparr>
          ingestion = callIngestionAgent (supervisorInputOf req) env,
          analysis = callAnalysisAgent (supervisorInputOf req)
                       (data (callIngestionAgent (supervisorInputOf req) env)) env,
          synthesis = callSynthesisAgent (supervisorInputOf req)
                        (data (callAnalysisAgent (supervisorInputOf req)
                                 (data (callIngestionAgent (supervisorInputOf req) env)) env))
                        env \<rparr>,
        totalExecutionTime = Some (endTime env - startTime env),
        resp_error = None \<rparr>,
      [Ingestion, Analysis, Synthesis])"
proof -
  have "success (callIngestionAgent si env)" for si
    by (simp add: callIngestionAgent_def)
  moreover have "success (callAnalysisAgent si d env)" for si d
    by (simp add: callAnalysisAgent_def)
  moreover have "success (callSynthesisAgent si d env)" for si d
    by (simp add: callSynthesisAgent_def)
  ultimately show ?thesis
    by (simp add: runACPA_def runACPA_with_def supervisor_run Let_def mockStages_def)
qed

text \<open>
  C7, as the specification states it, fails: with a policy fetch that rejects, the Data
  Ingestion Agent fails, yet the run on the same request succeeds, calls the analysis and
  the synthesis stage and returns findings and recommendations.  The ingestion stage of
  the run is the supervisor's mock call, which fetches from no source.
\<close>

theorem source_failure_does_not_reach_run_counterexample:
  "success (DataIngestionAgent_execute_with
      (mockSources \<lparr> fetchPolicy := \<lambda>input env. (900, Rejected ''policy source unreachable'') \<rparr>)
      (InObject californiaIngestionInput) exampleEnv) = False
   \<and> resp_success (fst (runACPA californiaRequest exampleEnv))
   \<and> snd (runACPA californiaRequest exampleEnv) = [Ingestion, Analysis, Synthesis]
   \<and> has_field (stageData analysis (fst (runACPA californiaRequest exampleEnv))) ''findings''
   \<and> has_field (stageData synthesis (fst (runACPA californiaRequest exampleEnv)))
       ''recommendations''"
proof -
  have "success (DataIngestionAgent_execute_with
      (mockSources \<lparr> fetchPolicy := \<lambda>input env. (900, Rejected ''policy source unreachable'') \<rparr>)
      (InObject californiaIngestionInput) exampleEnv) = False"
    by (simp add: DataIngestionAgent_execute_with_def validateInput_def Promise_all_def
          mockSources_def fetchNewsData_def fetchScientificData_def fetchAPIData_def)
  then show ?thesis
    by (simp add: mock_run stageData_def callAnalysisAgent_def callSynthesisAgent_def)
qed

text \<open>
  C7, amended.  When one of the four fetches rejects, the Data Ingestion Agent returns a
  failure with the message of a rejected fetch and no data: no partial bundle.  When the
  ingestion stage of a run does not succeed, the run fails, calls neither the analysis
  nor the synthesis stage and returns no stage result; when the stage reported the
  failure, the error is \<^verbatim>\<open>Ingestion failed: \<close> and the stage's error.  The
  run of the source calls no fetch, and succeeds whatever the fetches do.
\<close>

theorem source_failure_fails_agent_stage_failure_fails_run:
  assumes "\<exists>e. Rejected e \<in> set (map snd [fetchNews src inp env, fetchScientific src inp env,
                                         fetchPolicy src inp env, fetchAPI src inp env])"
  shows "(\<exists>msg. Rejected msg \<in> set (map snd [fetchNews src inp env, fetchScientific src inp env,
                                          fetchPolicy src inp env, fetchAPI src inp env])
            \<and> DataIngestionAgent_execute_with src (InObject inp) env =
                \<lparr> success = False, data = None, error = Some msg,
                  executionTime = Some (endTime env - startTime env) \<rparr>)
       \<and> (stageSucceeded calls (supervisorInputOf req) env Ingestion = False \<longrightarrow>
            resp_success (fst (runACPA_with calls req env)) = False
            \<and> result (fst (runACPA_with calls req env)) = None
            \<and> snd (runACPA_with calls req env) = [Ingestion])
       \<and> (callIngestion calls (supervisorInputOf req) env = Resolved out \<and> success out = False
            \<longrightarrow> resp_error (fst (runACPA_with calls req env)) =
                  Some (''Ingestion failed: '' @ template_string (error out)))
       \<and> resp_success (fst (runACPA req env))
       \<and> snd (runACPA req env) = [Ingestion, Analysis, Synthesis]"
proof -
  let ?ps = "[fetchNews src inp env, fetchScientific src inp env,
              fetchPolicy src inp env, fetchAPI src inp env]"
  from assms obtain e where e: "Rejected e \<in> set (map snd ?ps)" ..
  from in_map_snd [OF e] obtain t where "(t, Rejected e) \<in> set ?ps" ..
  then obtain t' msg where all: "Promise_all ?ps = (t', Rejected msg)"
    and mem: "(t', Rejected msg) \<in> set ?ps"
    using Promise_all_rejects by blast
  from mem have listed: "Rejected msg \<in> set (map snd ?ps)"
    by (rule pair_in_map_snd)
  from all have "DataIngestionAgent_execute_with src (InObject inp) env =
      \<lparr> success = False, data = None, error = Some msg,
        executionTime = Some (endTime env - startTime env) \<rparr>"
    by (simp add: DataIngestionAgent_execute_with_def validateInput_def)
  with listed have agent: "\<exists>msg. Rejected msg \<in> set (map snd ?ps)
      \<and> DataIngestionAgent_execute_with src (InObject inp) env =
          \<lparr> success = False, data = None, error = Some msg,
            executionTime = Some (endTime env - startTime env) \<rparr>"
    by blast
  have stage: "stageSucceeded calls (supervisorInputOf req) env Ingestion = False \<longrightarrow>
      resp_success (fst (runACPA_with calls req env)) = False
      \<and> result (fst (runACPA_with calls req env)) = None
      \<and> snd (runACPA_with calls req env) = [Ingestion]"
    by (auto simp: stageSucceeded_def runACPA_with_def supervisor_run Let_def
          supervisorFailed_def split: settled.splits)
  have reported: "callIngestion calls (supervisorInputOf req) env = Resolved out
      \<and> success out = False
      \<longrightarrow> resp_error (fst (runACPA_with calls req env)) =
            Some (''Ingestion failed: '' @ template_string (error out))"
    by (simp add: runACPA_with_def supervisor_run Let_def supervisorFailed_def)
  from agent stage reported show ?thesis
    by (simp add: mock_run)
qed

text \<open>
  The witness: the policy fetch rejects after 900 ms, the other three resolve; an
  ingestion stage that reports this failure ends the run.
\<close>

theorem source_failure_fails_agent_stage_failure_fails_run_witness:
  "DataIngestionAgent_execute_with
     (mockSources \<lparr> fetchPolicy := \<lambda>input env. (900, Rejected ''policy source unreachable'') \<rparr>)
     (InObject californiaIngestionInput) exampleEnv =
   \<lparr> success = False, data = None, error = Some ''policy source unreachable'',
     executionTime = Some 7500 \<rparr>
   \<and> runACPA_with
       (mockStages \<lparr> callIngestion := \<lambda>input env. Resolved
          \<lparr> success = False, data = None, error = Some ''policy source unreachable'',
            executionTime = Some 7500 \<rparr> \<rparr>)
       californiaRequest exampleEnv =
     (\<lparr> resp_success = False, executionId = None, result = None, totalExecutionTime = None,
        resp_error = Some ''Ingestion failed: policy source unreachable'' \<rparr>,
      [Ingestion])"
proof -
  let ?src = "mockSources \<lparr> fetchPolicy :=
      \<lambda>input env. (900, Rejected ''policy source unreachable'') \<rparr>"
  let ?out = "\<lparr> success = False, data = None, error = Some ''policy source unreachable'',
      executionTime = Some 7500 \<rparr> :: json AgentOutput"
  let ?calls = "mockStages \<lparr> callIngestion := \<lambda>input env. Resolved ?out \<rparr>"
  let ?ps = "[fetchNews ?src californiaIngestionInput exampleEnv,
              fetchScientific ?src californiaIngestionInput exampleEnv,
              fetchPolicy ?src californiaIngestionInput exampleEnv,
              fetchAPI ?src californiaIngestionInput exampleEnv]"
  have rejected: "\<exists>e. Rejected e \<in> set (map snd ?ps)"
    by (rule exI [of _ "''policy source unreachable''"]) simp
  from source_failure_fails_agent_stage_failure_fails_run
    [OF rejected, of ?calls californiaRequest ?out]
  obtain msg where msg: "Rejected msg \<in> set (map snd ?ps)"
    and agent: "DataIngestionAgent_execute_with ?src (InObject californiaIngestionInput)
        exampleEnv =
      \<lparr> success = False, data = None, error = Some msg,
        executionTime = Some (endTime exampleEnv - startTime exampleEnv) \<rparr>"
    and stage: "stageSucceeded ?calls (supervisorInputOf californiaRequest) exampleEnv Ingestion
        = False \<longrightarrow>
      resp_success (fst (runACPA_with ?calls californiaRequest exampleEnv)) = False
      \<and> result (fst (runACPA_with ?calls californiaRequest exampleEnv)) = None
      \<and> snd (runACPA_with ?calls californiaRequest exampleEnv) = [Ingestion]"
    and reported: "callIngestion ?calls (supervisorInputOf californiaRequest) exampleEnv =
        Resolved ?out \<and> success ?out = False
      \<longrightarrow> resp_error (fst (runACPA_with ?calls californiaRequest exampleEnv)) =
            Some (''Ingestion failed: '' @ template_string (error ?out))"
    by blast
  from msg have "msg = ''policy source unreachable''"
    by (simp add: mockSources_def fetchNewsData_def fetchScientificData_def fetchAPIData_def)
  with agent stage reported show ?thesis
    by (simp add: exampleEnv_def runACPA_with_def supervisor_run Let_def supervisorFailed_def)
qed

text \<open>No output of an agent is the output of the mock call of its stage.\<close>

lemma ingestion_differs:
  "untyped json_of_IngestionData (DataIngestionAgent_execute x env') \<noteq> callIngestionAgent si env"
proof (cases "validateInput x")
  case False
  then show ?thesis
    by (simp add: DataIngestionAgent_execute_def DataIngestionAgent_execute_with_def
          untyped_def callIngestionAgent_def)
next
  case True
  then obtain inp where "x = InObject inp"
    by (auto simp: invalid_input_cases)
  moreover obtain m where "data (DataIngestionAgent_execute (InObject inp) env') = Some m"
    using mock_ingestion_data [of inp env'] by blast
  ultimately have "data (untyped json_of_IngestionData (DataIngestionAgent_execute x env')) =
      Some (json_of_IngestionData m)"
    by (simp add: untyped_def)
  moreover have "data (callIngestionAgent si env) \<noteq> Some (json_of_IngestionData m)"
    by (simp add: callIngestionAgent_def json_of_IngestionData_def)
  ultimately show ?thesis by auto
qed

lemma analysis_differs:
  "untyped json_of_AnalysisData (PolicyAnalysisAgent_execute y env') \<noteq> callAnalysisAgent si di env"
proof (cases "validateInput y")
  case False
  then show ?thesis
    by (simp add: PolicyAnalysisAgent_execute_def PolicyAnalysisAgent_execute_with_def
          untyped_def callAnalysisAgent_def)
next
  case True
  then obtain inp where "y = InObject inp"
    by (auto simp: invalid_input_cases)
  then have "data (untyped json_of_AnalysisData (PolicyAnalysisAgent_execute y env')) \<noteq>
      data (callAnalysisAgent si di env)"
    by (simp add: policy_analysis_run untyped_def callAnalysisAgent_def json_of_AnalysisData_def)
  then show ?thesis by auto
qed

lemma synthesis_differs:
  "untyped json_of_SynthesisData (SynthesisAgent_execute z env') \<noteq> callSynthesisAgent si da env"
proof (cases "validateInput z")
  case False
  then show ?thesis
    by (simp add: SynthesisAgent_execute_def synthesis_not_object
          untyped_def callSynthesisAgent_def)
next
  case True
  then obtain inp where "z = InObject inp"
    by (auto simp: invalid_input_cases)
  then have "data (untyped json_of_SynthesisData (SynthesisAgent_execute z env')) \<noteq>
      data (callSynthesisAgent si da env)"
    by (simp add: SynthesisAgent_execute_def synthesis_object storeInMemoryBank_def
          untyped_def callSynthesisAgent_def json_of_SynthesisData_def)
  then show ?thesis by auto
qed

text \<open>
  C2.  For every request, \<^verbatim>\<open>runACPA\<close> succeeds and its three stage outputs are
  the values of \<^verbatim>\<open>callIngestionAgent\<close>, \<^verbatim>\<open>callAnalysisAgent\<close> and
  \<^verbatim>\<open>callSynthesisAgent\<close>; no \<^verbatim>\<open>execute\<close> of the Data Ingestion, Policy
  Analysis or Synthesis Agent takes part.  Whatever their input, the outputs of those
  agents differ from the mock outputs; the run's ingestion data have no
  \<^verbatim>\<open>totalDataPoints\<close> and its analysis data no \<^verbatim>\<open>iterationCount\<close>, which
  the agents' data have.
\<close>

theorem runACPA_result_is_mock_stage_output:
  "runACPA req env =
     (\<lparr> resp_success = True,
        executionId =
          Some (''exec-'' @ show_int (idTime env) @ ''-'' @ take 9 (drop 2 (random36 env))),
        result = Some \<lparr>
          ingestion = callIngestionAgent (supervisorInputOf req) env,
          analysis = callAnalysisAgent (supervisorInputOf req)
                       (data (callIngestionAgent (supervisorInputOf req) env)) env,
          synthesis = callSynthesisAgent (supervisorInputOf req)
                        (data (callAnalysisAgent (supervisorInputOf req)
                                 (data (callIngestionAgent (supervisorInputOf req) env)) env))
                        env \<rparr>,
        totalExecutionTime = Some (endTime env - startTime env),
        resp_error = None \<rparr>,
      [Ingestion, Analysis, Synthesis])
   \<and> untyped json_of_IngestionData (DataIngestionAgent_execute x env') \<noteq>
       callIngestionAgent si env
   \<and> untyped json_of_AnalysisData (PolicyAnalysisAgent_execute y env') \<noteq>
       callAnalysisAgent si di env
   \<and> untyped json_of_SynthesisData (SynthesisAgent_execute z env') \<noteq>
       callSynthesisAgent si da env
   \<and> has_field (stageData ingestion (fst (runACPA req env))) ''totalDataPoints'' = False
   \<and> has_field (stageData analysis (fst (runACPA req env))) ''iterationCount'' = False
   \<and> has_field (json_of_IngestionData m) ''totalDataPoints''
   \<and> has_field (json_of_AnalysisData n) ''iterationCount''"
proof -
  have absent: "has_field (stageData ingestion (fst (runACPA req env))) ''totalDataPoints'' = False
     \<and> has_field (stageData analysis (fst (runACPA req env))) ''iterationCount'' = False"
    by (simp add: mock_run stageData_def callIngestionAgent_def callAnalysisAgent_def)
  have present: "has_field (json_of_IngestionData m) ''totalDataPoints''
     \<and> has_field (json_of_AnalysisData n) ''iterationCount''"
    by (simp add: json_of_IngestionData_def json_of_AnalysisData_def)
  show ?thesis
    using absent present
    by (simp add: mock_run ingestion_differs analysis_differs synthesis_differs)
qed

theorem runACPA_result_is_mock_stage_output_witness:
  "map_option ingestion (result (fst (runACPA californiaRequest exampleEnv))) =
     Some (callIngestionAgent (supervisorInputOf californiaRequest) exampleEnv)
   \<and> untyped json_of_IngestionData
       (DataIngestionAgent_execute (InObject californiaIngestionInput) exampleEnv) \<noteq>
     callIngestionAgent (supervisorInputOf californiaRequest) exampleEnv"
  using runACPA_result_is_mock_stage_output
    [where req = californiaRequest and env = exampleEnv and env' = exampleEnv
       and x = "InObject californiaIngestionInput"
       and si = "supervisorInputOf californiaRequest"]
  by simp

text \<open>
  C1, as the specification states it, fails: the request with the empty region and the
  request with the blank region, both with policy type \<^verbatim>\<open>X\<close>, are accepted;
  all three stages are called and the response reports success with a result.
\<close>

theorem empty_region_accepted_counterexample:
  "req_region emptyRegionRequest = []
   \<and> resp_success (fst (runACPA emptyRegionRequest exampleEnv))
   \<and> result (fst (runACPA emptyRegionRequest exampleEnv)) \<noteq> None
   \<and> snd (runACPA emptyRegionRequest exampleEnv) = [Ingestion, Analysis, Synthesis]
   \<and> trim (req_region blankRegionRequest) = []
   \<and> resp_success (fst (runACPA blankRegionRequest exampleEnv))
   \<and> result (fst (runACPA blankRegionRequest exampleEnv)) \<noteq> None
   \<and> snd (runACPA blankRegionRequest exampleEnv) = [Ingestion, Analysis, Synthesis]"
  by (simp add: mock_run emptyRegionRequest_def blankRegionRequest_def trim_def
        is_whitespace_def)

text \<open>
  C1, amended.  An input that is not an object (\<^verbatim>\<open>null\<close>,
  \<^verbatim>\<open>undefined\<close>, a primitive) is rejected before any stage: the output is the
  failure \<^verbatim>\<open>Invalid supervisor input\<close> and no stage is called.  The region and
  the policy type of a request are not checked for emptiness and not trimmed: on every
  request whose region and policy type are strings, the empty and the blank ones
  included, the three stages are called in order and the run succeeds with a result.
\<close>

theorem run_rejects_non_objects_accepts_any_strings:
  "((\<forall>obj. input \<noteq> InObject obj) \<longrightarrow>
      SupervisorAgent_execute input env =
        (\<lparr> success = False, data = None, error = Some ''Invalid supervisor input'',
           executionTime = None \<rparr>, []))
   \<and> success (fst (SupervisorAgent_execute (InObject (supervisorInputOf req)) env))
   \<and> snd (SupervisorAgent_execute (InObject (supervisorInputOf req)) env) =
       [Ingestion, Analysis, Synthesis]
   \<and> resp_success (fst (runACPA req env))
   \<and> result (fst (runACPA req env)) \<noteq> None
   \<and> snd (runACPA req env) = [Ingestion, Analysis, Synthesis]"
proof -
  have rejected: "(\<forall>obj. input \<noteq> InObject obj) \<longrightarrow>
      SupervisorAgent_execute input env =
        (\<lparr> success = False, data = None, error = Some ''Invalid supervisor input'',
           executionTime = None \<rparr>, [])"
    by (cases input)
       (simp_all add: SupervisorAgent_execute_def SupervisorAgent_execute_with_def
          validateInput_def)
  have accepted: "success (fst (SupervisorAgent_execute (InObject obj) env)) \<and>
        snd (SupervisorAgent_execute (InObject obj) env) = [Ingestion, Analysis, Synthesis]" for obj
    by (simp add: SupervisorAgent_execute_def supervisor_run mockStages_def
          callIngestionAgent_def callAnalysisAgent_def callSynthesisAgent_def)
  from rejected accepted show ?thesis
    by (simp add: mock_run)
qed

theorem run_rejects_non_objects_accepts_any_strings_witness:
  "SupervisorAgent_execute InNull exampleEnv =
       (\<lparr> success = False, data = None, error = Some ''Invalid supervisor input'',
          executionTime = None \<rparr>, [])
   \<and> resp_success (fst (runACPA blankRegionRequest exampleEnv))
   \<and> snd (runACPA blankRegionRequest exampleEnv) = [Ingestion, Analysis, Synthesis]"
  using run_rejects_non_objects_accepts_any_strings [of InNull exampleEnv blankRegionRequest]
  by simp

text \<open>
  C9, as the specification states it, fails: in the record of the California request the
  ingestion data have the properties \<^verbatim>\<open>sources\<close>, \<^verbatim>\<open>region\<close> and
  \<^verbatim>\<open>timestamp\<close> and no total item count, and the analysis data have no iteration
  count.
\<close>

theorem california_run_lacks_totals_counterexample:
  "field_names (stageData ingestion (fst (runACPA californiaRequest exampleEnv))) =
     [''sources'', ''region'', ''timestamp'']
   \<and> field (stageData ingestion (fst (runACPA californiaRequest exampleEnv))) ''totalDataPoints'' =
       JUndefined
   \<and> field_names (stageData analysis (fst (runACPA californiaRequest exampleEnv))) =
       [''analysisType'', ''region'', ''findings'', ''confidence'']
   \<and> field (stageData analysis (fst (runACPA californiaRequest exampleEnv))) ''iterationCount'' =
       JUndefined"
  by (simp add: mock_run stageData_def callIngestionAgent_def callAnalysisAgent_def)

text \<open>
  C9, amended.  For the California request the run reports success; its ingestion data
  list two sources, of counts 15 and 8, and no total; its analysis data give confidence
  0.82 and no iteration count; its synthesis data list three recommendations.
\<close>

theorem california_run_mock_record:
  "resp_success (fst (runACPA californiaRequest env))
   \<and> map (\<lambda>s. field s ''count'')
       (array_items (field (stageData ingestion (fst (runACPA californiaRequest env))) ''sources'')) =
       [JNum 15, JNum 8]
   \<and> has_field (stageData ingestion (fst (runACPA californiaRequest env))) ''totalDataPoints'' = False
   \<and> field (stageData analysis (fst (runACPA californiaRequest env))) ''confidence'' = JNum 0.82
   \<and> has_field (stageData analysis (fst (runACPA californiaRequest env))) ''iterationCount'' = False
   \<and> length (array_items
        (field (stageData synthesis (fst (runACPA californiaRequest env))) ''recommendations'')) = 3"
  by (simp add: mock_run stageData_def callIngestionAgent_def callAnalysisAgent_def
        callSynthesisAgent_def)

theorem california_run_mock_record_witness:
  "resp_success (fst (runACPA californiaRequest exampleEnv))
   \<and> length (array_items
        (field (stageData synthesis (fst (runACPA californiaRequest exampleEnv)))
           ''recommendations'')) = 3"
  using california_run_mock_record [of exampleEnv]
  by simp

text \<open>
  C4, as the specification states it, fails: a memory write that throws is awaited in
  the one \<^verbatim>\<open>try\<close> block of \<^verbatim>\<open>execute\<close>, and the Synthesis Agent
  returns a failure with the thrown message and no data.
\<close>

theorem throwing_memory_write_fails_synthesis_counterexample:
  "SynthesisAgent_execute_with
     (\<lambda>input recs summary. (300, Rejected ''memory bank unavailable''))
     (InObject canadaSynthesisInput) exampleEnv =
   \<lparr> success = False, data = None, error = Some ''memory bank unavailable'',
     executionTime = Some 7500 \<rparr>"
  by (simp add: synthesis_object exampleEnv_def)

text \<open>
  C4, amended.  When the memory write at the end of synthesis is not acknowledged (it
  resolves to \<^verbatim>\<open>false\<close>), the Synthesis Agent still succeeds: its output
  carries the recommendations and the summary, with \<^verbatim>\<open>memoryUpdated\<close> false.
  The overall run reports success; its synthesis stage is the supervisor's mock call,
  which writes nothing to the memory bank and returns no \<^verbatim>\<open>memoryUpdated\<close>.
\<close>

theorem unacknowledged_memory_write_keeps_success:
  assumes "snd (store inp (generateRecommendations inp (retrieveMemoryContext inp))
                  (generateExecutiveSummary inp
                     (generateRecommendations inp (retrieveMemoryContext inp)))) = Resolved False"
  shows "SynthesisAgent_execute_with store (InObject inp) env =
           \<lparr> success = True,
             data = Some \<lparr>
               recommendations = generateRecommendations inp (retrieveMemoryContext inp),
               executiveSummary = generateExecutiveSummary inp
                 (generateRecommendations inp (retrieveMemoryContext inp)),
               reportGeneratedAt = isoNow env,
               memoryUpdated = False \<rparr>,
             error = None,
             executionTime = Some (endTime env - startTime env) \<rparr>
         \<and> resp_success (fst (runACPA req env))
         \<and> has_field (stageData synthesis (fst (runACPA req env))) ''memoryUpdated'' = False"
proof -
  from assms have "SynthesisAgent_execute_with store (InObject inp) env =
      \<lparr> success = True,
        data = Some \<lparr>
          recommendations = generateRecommendations inp (retrieveMemoryContext inp),
          executiveSummary = generateExecutiveSummary inp
            (generateRecommendations inp (retrieveMemoryContext inp)),
          reportGeneratedAt = isoNow env,
          memoryUpdated = False \<rparr>,
        error = None,
        executionTime = Some (endTime env - startTime env) \<rparr>"
    by (simp add: synthesis_object)
  moreover have "has_field (stageData synthesis (fst (runACPA req env))) ''memoryUpdated'' = False"
    by (simp add: mock_run stageData_def callSynthesisAgent_def)
  ultimately show ?thesis
    by (simp add: mock_run)
qed

text \<open>The witness: a memory bank that acknowledges no write.\<close>

theorem unacknowledged_memory_write_keeps_success_witness:
  "success (SynthesisAgent_execute_with (\<lambda>input recs summary. (300, Resolved False))
      (InObject canadaSynthesisInput) exampleEnv)
   \<and> map_option memoryUpdated
       (data (SynthesisAgent_execute_with (\<lambda>input recs summary. (300, Resolved False))
          (InObject canadaSynthesisInput) exampleEnv)) = Some False
   \<and> map_option (\<lambda>d. length (recommendations d))
       (data (SynthesisAgent_execute_with (\<lambda>input recs summary. (300, Resolved False))
          (InObject canadaSynthesisInput) exampleEnv)) = Some 5"
proof -
  let ?store = "\<lambda>(input :: SynthesisInput) (recs :: PolicyRecommendation list)
      (summary :: string). (300 :: nat, Resolved False)"
  have unacknowledged:
    "snd (?store canadaSynthesisInput
            (generateRecommendations canadaSynthesisInput
               (retrieveMemoryContext canadaSynthesisInput))
            (generateExecutiveSummary canadaSynthesisInput
               (generateRecommendations canadaSynthesisInput
                  (retrieveMemoryContext canadaSynthesisInput)))) = Resolved False"
    by simp
  from unacknowledged_memory_write_keeps_success
    [where env = exampleEnv and req = californiaRequest, OF unacknowledged]
  show ?thesis
    by (simp add: recommendations_sorted)
qed

end
